theory Spec2Isabelle
  imports Complex_Main
begin

section \<open>Python values, exceptions and the helpers of the language\<close>

text \<open>
  The values that travel between the bot and the exchange client are JSON-like: the
  parameter mappings the bot builds and the decoded responses of the client. A Python
  \<open>dict\<close> keeps insertion order, so it is an association list; lookup takes the first
  entry of a key. Floats are carried through untouched (quantities, prices), so their type
  is a parameter \<open>'f\<close> of the model; the only operations on them are the ones the
  environment supplies (\<open>str\<close>) or the caller passes in (the validation function).
\<close>

datatype 'f pyval =
    PNone
  | PBool bool
  | PInt int
  | PFloat 'f
  | PStr string
  | PList "'f pyval list"
  | PDict "(string \<times> 'f pyval) list"

type_synonym 'f params = "(string \<times> 'f pyval) list"

text \<open>
  Exceptions are values: the class and the message. Only subclasses of \<open>Exception\<close>
  appear here; a keyboard interrupt is an event of the console (see \<open>validate_input\<close>).
\<close>

datatype exn_class =
    BinanceAPIException
  | BinanceOrderException
  | ValueError
  | KeyError
  | TypeError
  | AttributeError
  | EOFError
  | OtherException string

datatype exn = Exn (cls: exn_class) (message: string)

text \<open>\<open>obj[key]\<close> with a string key: only a dict can answer, a missing key raises.\<close>

definition py_getitem :: "'f pyval \<Rightarrow> string \<Rightarrow> exn + 'f pyval" where
  "py_getitem obj k =
     (case obj of
        PDict d \<Rightarrow> (case map_of d k of None \<Rightarrow> Inl (Exn KeyError k) | Some v \<Rightarrow> Inr v)
      | _ \<Rightarrow> Inl (Exn TypeError []))"

text \<open>\<open>obj.get(key, default)\<close>: a method of dicts only.\<close>

definition py_get :: "'f pyval \<Rightarrow> string \<Rightarrow> 'f pyval \<Rightarrow> exn + 'f pyval" where
  "py_get obj k dflt =
     (case obj of
        PDict d \<Rightarrow> Inr (case map_of d k of None \<Rightarrow> dflt | Some v \<Rightarrow> v)
      | _ \<Rightarrow> Inl (Exn AttributeError []))"

text \<open>Iteration (\<open>for x in obj\<close>): a list gives its items, a dict its keys, a string its characters.\<close>

definition py_iter :: "'f pyval \<Rightarrow> exn + 'f pyval list" where
  "py_iter obj =
     (case obj of
        PList xs \<Rightarrow> Inr xs
      | PDict d \<Rightarrow> Inr (map (\<lambda>kv. PStr (fst kv)) d)
      | PStr s \<Rightarrow> Inr (map (\<lambda>c. PStr [c]) s)
      | _ \<Rightarrow> Inl (Exn TypeError []))"

definition py_len :: "'f pyval \<Rightarrow> exn + int" where
  "py_len obj =
     (case obj of
        PList xs \<Rightarrow> Inr (int (length xs))
      | PDict d \<Rightarrow> Inr (int (length d))
      | PStr s \<Rightarrow> Inr (int (length s))
      | _ \<Rightarrow> Inl (Exn TypeError []))"

text \<open>
  \<open>str.upper\<close> and \<open>str.strip\<close> on ASCII text (a \<open>char\<close> is a byte: letters and
  whitespace beyond ASCII are left as they are).
\<close>

definition upper_char :: "char \<Rightarrow> char" where
  "upper_char c =
     (case map_of (zip ''abcdefghijklmnopqrstuvwxyz'' ''ABCDEFGHIJKLMNOPQRSTUVWXYZ'') c of
        None \<Rightarrow> c
      | Some u \<Rightarrow> u)"

definition upper :: "string \<Rightarrow> string" where
  "upper s = map upper_char s"

definition is_space :: "char \<Rightarrow> bool" where
  "is_space c = (c \<in> set [CHR '' '', CHR 0x09, CHR 0x0A, CHR 0x0B, CHR 0x0C, CHR 0x0D])"

definition strip :: "string \<Rightarrow> string" where
  "strip s = rev (dropWhile is_space (rev (dropWhile is_space s)))"


section \<open>The logger\<close>

text \<open>
  \<open>TradingBotLogger\<close> formats one message per call and hands it to the logging channel.
  The model keeps the call: its level and kind, the operation name and the payload (the
  text is the payload's \<open>json.dumps\<close>). The log is the sequence of these records.
\<close>

datatype 'f log_entry =
    INFO_text string
  | API_REQUEST string "'f pyval"
  | API_RESPONSE string "'f pyval"
  | ERROR_entry exn string
  | ORDER_EXECUTED "'f pyval"

record ('c, 'f) world =
  logged :: "'f log_entry list"
  exchange :: 'c

definition emit :: "'f log_entry \<Rightarrow> ('c, 'f) world \<Rightarrow> ('c, 'f) world" where
  "emit entry w = w\<lparr>logged := logged w @ [entry]\<rparr>"

definition log_info :: "string \<Rightarrow> ('c, 'f) world \<Rightarrow> ('c, 'f) world" where
  "log_info msg w = emit (INFO_text msg) w"

definition log_api_request :: "string \<Rightarrow> 'f params \<Rightarrow> ('c, 'f) world \<Rightarrow> ('c, 'f) world" where
  "log_api_request method ps w = emit (API_REQUEST method (PDict ps)) w"

definition log_api_response :: "string \<Rightarrow> 'f pyval \<Rightarrow> ('c, 'f) world \<Rightarrow> ('c, 'f) world" where
  "log_api_response method response w = emit (API_RESPONSE method response) w"

definition log_error :: "exn \<Rightarrow> string \<Rightarrow> ('c, 'f) world \<Rightarrow> ('c, 'f) world" where
  "log_error e context_text w = emit (ERROR_entry e context_text) w"

definition log_order_execution :: "'f pyval \<Rightarrow> ('c, 'f) world \<Rightarrow> ('c, 'f) world" where
  "log_order_execution order_details w = emit (ORDER_EXECUTED order_details) w"


section \<open>The exchange client\<close>

text \<open>
  The vendor's client is outside the repository: it is a parameter. A handle carries the
  credentials and the endpoint URLs; each operation takes the handle, the keyword
  arguments and the state of the outside world, and either raises or returns the decoded
  response, with the next state of the world.
\<close>

record client_handle =
  api_key :: string
  api_secret :: string
  testnet :: bool
  API_URL :: string
  FUTURES_URL :: string

datatype api_method =
    futures_ping
  | futures_account
  | futures_symbol_ticker
  | futures_exchange_info
  | futures_create_order
  | futures_cancel_order
  | futures_get_open_orders
  | futures_get_order

record ('c, 'f) env =
  Client :: "string \<Rightarrow> string \<Rightarrow> bool \<Rightarrow> 'c \<Rightarrow> (exn + client_handle) \<times> 'c"
  call :: "client_handle \<Rightarrow> api_method \<Rightarrow> 'f params \<Rightarrow> 'c \<Rightarrow> (exn + 'f pyval) \<times> 'c"
  time_ms :: "'c \<Rightarrow> int"
  str_float :: "'f \<Rightarrow> string"
  FUTURE_ORDER_TYPE_MARKET :: string
  FUTURE_ORDER_TYPE_LIMIT :: string
  FUTURE_ORDER_TYPE_STOP :: string
  TIME_IN_FORCE_GTC :: string

text \<open>One call of the client from a method of the bot: the world moves on, the log stays.\<close>

definition client_call ::
  "('c, 'f) env \<Rightarrow> client_handle \<Rightarrow> api_method \<Rightarrow> 'f params \<Rightarrow> ('c, 'f) world
     \<Rightarrow> (exn + 'f pyval) \<times> ('c, 'f) world" where
  "client_call E cl m ps w =
     (case call E cl m ps (exchange w) of (r, c) \<Rightarrow> (r, w\<lparr>exchange := c\<rparr>))"

text \<open>
  \<open>except C1 [, C2] as e: log_error(e, context); raise\<close> around a body that has run:
  an exception of a listed class is logged, every exception goes on to the caller.
\<close>

definition log_and_reraise ::
  "exn_class list \<Rightarrow> string \<Rightarrow> (exn + 'a) \<times> ('c, 'f) world \<Rightarrow> (exn + 'a) \<times> ('c, 'f) world" where
  "log_and_reraise caught context_text r =
     (case r of
        (Inl e, w) \<Rightarrow> if cls e \<in> set caught then (Inl e, log_error e context_text w) else (Inl e, w)
      | (Inr v, w) \<Rightarrow> (Inr v, w))"


text \<open>Sequencing inside a \<open>try\<close> body: the first exception ends the body.\<close>

definition then_pure ::
  "exn + 'a \<Rightarrow> 'w \<Rightarrow> ('a \<Rightarrow> (exn + 'b) \<times> 'w) \<Rightarrow> (exn + 'b) \<times> 'w" where
  "then_pure r w k = (case r of Inl e \<Rightarrow> (Inl e, w) | Inr v \<Rightarrow> k v)"

definition then_call ::
  "(exn + 'a) \<times> 'w \<Rightarrow> ('a \<Rightarrow> 'w \<Rightarrow> (exn + 'b) \<times> 'w) \<Rightarrow> (exn + 'b) \<times> 'w" where
  "then_call rw k = (case rw of (Inl e, w) \<Rightarrow> (Inl e, w) | (Inr v, w) \<Rightarrow> k v w)"


section \<open>The bot facade\<close>

record bot =
  client :: client_handle

definition testnet_url :: string where
  "testnet_url = ''https://testnet.binancefuture.com''"

text \<open>\<open>BasicBot._test_connection\<close>: ping, then the account fetch.\<close>

definition test_connection ::
  "('c, 'f) env \<Rightarrow> bot \<Rightarrow> ('c, 'f) world \<Rightarrow> (exn + unit) \<times> ('c, 'f) world" where
  "test_connection E self w =
     log_and_reraise [BinanceAPIException] ''API Connection Test''
       (then_call (client_call E (client self) futures_ping [] (log_api_request ''ping'' [] w))
          (\<lambda>ping_result w1.
             then_call
               (client_call E (client self) futures_account []
                  (log_api_request ''account_info'' [] (log_api_response ''ping'' ping_result w1)))
               (\<lambda>account_info w2.
                  then_pure (py_get account_info ''totalWalletBalance'' (PStr ''N/A'')) w2
                    (\<lambda>total.
                       (Inr (),
                        log_info ''API connection successful''
                          (log_api_response ''account_info''
                             (PDict [(''status'', PStr ''success''), (''totalWalletBalance'', total)])
                             w2))))))"

text \<open>
  \<open>BasicBot.__init__\<close>: the client is built, pointed at the testnet when asked, and the
  connection is tested; \<open>except Exception\<close> logs whatever was raised and raises it again.
  The bot exists for the caller only when the constructor returns.
\<close>

definition BasicBot_init ::
  "('c, 'f) env \<Rightarrow> string \<Rightarrow> string \<Rightarrow> bool \<Rightarrow> ('c, 'f) world \<Rightarrow> (exn + bot) \<times> ('c, 'f) world" where
  "BasicBot_init E key secret use_testnet w =
     (case
        (case Client E key secret use_testnet (exchange w) of
           (Inl e, c) \<Rightarrow> (Inl e, w\<lparr>exchange := c\<rparr>)
         | (Inr new_client, c) \<Rightarrow>
             (let cl = (if use_testnet
                        then new_client\<lparr>API_URL := testnet_url, FUTURES_URL := testnet_url\<rparr>
                        else new_client);
                  self = \<lparr>client = cl\<rparr>
              in then_call
                   (test_connection E self
                      (log_info ''Trading Bot initialized successfully'' (w\<lparr>exchange := c\<rparr>)))
                   (\<lambda>u w1. (Inr self, w1))))
      of
        (Inl e, w') \<Rightarrow> (Inl e, log_error e ''Bot Initialization'' w')
      | (Inr self, w') \<Rightarrow> (Inr self, w'))"

definition get_account_balance ::
  "('c, 'f) env \<Rightarrow> bot \<Rightarrow> ('c, 'f) world \<Rightarrow> (exn + 'f pyval) \<times> ('c, 'f) world" where
  "get_account_balance E self w =
     log_and_reraise [BinanceAPIException] ''Get Account Balance''
       (then_call
          (client_call E (client self) futures_account [] (log_api_request ''futures_account'' [] w))
          (\<lambda>account_info w1.
             then_pure (py_get account_info ''totalWalletBalance'' (PStr ''0'')) w1 (\<lambda>total.
             then_pure (py_get account_info ''availableBalance'' (PStr ''0'')) w1 (\<lambda>available.
             then_pure (py_get account_info ''totalUnrealizedProfit'' (PStr ''0'')) w1 (\<lambda>profit.
               (let balance_info =
                      PDict [(''totalWalletBalance'', total),
                             (''availableBalance'', available),
                             (''totalUnrealizedProfit'', profit)]
                in (Inr balance_info, log_api_response ''futures_account'' balance_info w1)))))))"

text \<open>
  The loop of \<open>get_symbol_info\<close> over \<open>exchange_info['symbols']\<close>: the first entry whose
  \<open>'symbol'\<close> equals the argument, \<open>None\<close> when the list ends; an entry that cannot be
  read raises before any later entry is looked at.
\<close>

fun find_symbol :: "string \<Rightarrow> 'f pyval list \<Rightarrow> exn + 'f pyval option" where
  "find_symbol symbol [] = Inr None"
| "find_symbol symbol (s # rest) =
     (case py_getitem s ''symbol'' of
        Inl e \<Rightarrow> Inl e
      | Inr v \<Rightarrow> if v = PStr symbol then Inr (Some s) else find_symbol symbol rest)"

text \<open>
  \<open>next((f[field] for f in filters if f['filterType'] == 'LOT_SIZE'), 'N/A')\<close>: the field
  of the first filter of that type, the default when the filters run out.
\<close>

fun next_lot_size :: "string \<Rightarrow> 'f pyval list \<Rightarrow> exn + 'f pyval" where
  "next_lot_size field [] = Inr (PStr ''N/A'')"
| "next_lot_size field (f # rest) =
     (case py_getitem f ''filterType'' of
        Inl e \<Rightarrow> Inl e
      | Inr t \<Rightarrow> if t = PStr ''LOT_SIZE'' then py_getitem f field else next_lot_size field rest)"

definition lot_size_field :: "'f pyval \<Rightarrow> string \<Rightarrow> exn + 'f pyval" where
  "lot_size_field symbol_info field =
     (case py_getitem symbol_info ''filters'' of
        Inl e \<Rightarrow> Inl e
      | Inr filters \<Rightarrow>
          (case py_iter filters of Inl e \<Rightarrow> Inl e | Inr fs \<Rightarrow> next_lot_size field fs))"

definition not_found :: "string \<Rightarrow> exn" where
  "not_found symbol = Exn ValueError (''Symbol '' @ symbol @ '' not found'')"

text \<open>
  \<open>BasicBot.get_symbol_info\<close>. A matching entry has the key \<open>'symbol'\<close>, so it is a
  non-empty dict and \<open>not symbol_info\<close> holds exactly when the loop found nothing.
\<close>

definition get_symbol_info ::
  "('c, 'f) env \<Rightarrow> bot \<Rightarrow> string \<Rightarrow> ('c, 'f) world \<Rightarrow> (exn + 'f pyval) \<times> ('c, 'f) world" where
  "get_symbol_info E self symbol w =
     log_and_reraise [BinanceAPIException] (''Get Symbol Info for '' @ symbol)
       (then_call
          (client_call E (client self) futures_symbol_ticker [(''symbol'', PStr symbol)]
             (log_api_request ''futures_symbol_ticker'' [(''symbol'', PStr symbol)] w))
          (\<lambda>ticker w1.
             then_call
               (client_call E (client self) futures_exchange_info []
                  (log_api_request ''futures_exchange_info'' [] w1))
               (\<lambda>exchange_info w2.
                  then_pure (py_getitem exchange_info ''symbols'') w2 (\<lambda>symbols.
                  then_pure (py_iter symbols) w2 (\<lambda>entries.
                  then_pure (find_symbol symbol entries) w2 (\<lambda>found.
                    (case found of
                       None \<Rightarrow> (Inl (not_found symbol), w2)
                     | Some symbol_info \<Rightarrow>
                         then_pure (py_getitem ticker ''price'') w2 (\<lambda>price.
                         then_pure (py_getitem symbol_info ''status'') w2 (\<lambda>status.
                         then_pure (py_getitem symbol_info ''baseAsset'') w2 (\<lambda>base.
                         then_pure (py_getitem symbol_info ''quoteAsset'') w2 (\<lambda>quote.
                         then_pure (lot_size_field symbol_info ''minQty'') w2 (\<lambda>min_qty.
                         then_pure (lot_size_field symbol_info ''stepSize'') w2 (\<lambda>step_size.
                           (let result =
                                  PDict [(''symbol'', PStr symbol),
                                         (''price'', price),
                                         (''status'', status),
                                         (''baseAsset'', base),
                                         (''quoteAsset'', quote),
                                         (''minQty'', min_qty),
                                         (''stepSize'', step_size)]
                            in (Inr result, log_api_response ''symbol_info'' result w2)))))))))))))))"


text \<open>
  The three order methods. Each builds its parameter mapping (with the clock read in
  milliseconds), logs the request, submits it with one call of the client, logs the
  response and the execution, and returns the response. The context text of the error
  entry is the f-string of the method, with the arguments as the caller gave them.
\<close>

definition market_order_params ::
  "('c, 'f) env \<Rightarrow> string \<Rightarrow> string \<Rightarrow> 'f \<Rightarrow> 'c \<Rightarrow> 'f params" where
  "market_order_params E symbol side quantity c =
     [(''symbol'', PStr symbol),
      (''side'', PStr (upper side)),
      (''type'', PStr (FUTURE_ORDER_TYPE_MARKET E)),
      (''quantity'', PFloat quantity),
      (''timestamp'', PInt (time_ms E c))]"

definition limit_order_params ::
  "('c, 'f) env \<Rightarrow> string \<Rightarrow> string \<Rightarrow> 'f \<Rightarrow> 'f \<Rightarrow> 'c \<Rightarrow> 'f params" where
  "limit_order_params E symbol side quantity price c =
     [(''symbol'', PStr symbol),
      (''side'', PStr (upper side)),
      (''type'', PStr (FUTURE_ORDER_TYPE_LIMIT E)),
      (''quantity'', PFloat quantity),
      (''price'', PFloat price),
      (''timeInForce'', PStr (TIME_IN_FORCE_GTC E)),
      (''timestamp'', PInt (time_ms E c))]"

definition stop_limit_order_params ::
  "('c, 'f) env \<Rightarrow> string \<Rightarrow> string \<Rightarrow> 'f \<Rightarrow> 'f \<Rightarrow> 'f \<Rightarrow> 'c \<Rightarrow> 'f params" where
  "stop_limit_order_params E symbol side quantity price stop_price c =
     [(''symbol'', PStr symbol),
      (''side'', PStr (upper side)),
      (''type'', PStr (FUTURE_ORDER_TYPE_STOP E)),
      (''quantity'', PFloat quantity),
      (''price'', PFloat price),
      (''stopPrice'', PFloat stop_price),
      (''timeInForce'', PStr (TIME_IN_FORCE_GTC E)),
      (''timestamp'', PInt (time_ms E c))]"

definition market_order_context :: "('c, 'f) env \<Rightarrow> string \<Rightarrow> string \<Rightarrow> 'f \<Rightarrow> string" where
  "market_order_context E symbol side quantity =
     ''Market Order '' @ side @ '' '' @ str_float E quantity @ '' '' @ symbol"

definition limit_order_context ::
  "('c, 'f) env \<Rightarrow> string \<Rightarrow> string \<Rightarrow> 'f \<Rightarrow> 'f \<Rightarrow> string" where
  "limit_order_context E symbol side quantity price =
     ''Limit Order '' @ side @ '' '' @ str_float E quantity @ '' '' @ symbol
       @ '' @ '' @ str_float E price"

definition stop_limit_order_context ::
  "('c, 'f) env \<Rightarrow> string \<Rightarrow> string \<Rightarrow> 'f \<Rightarrow> 'f \<Rightarrow> 'f \<Rightarrow> string" where
  "stop_limit_order_context E symbol side quantity price stop_price =
     ''Stop-Limit Order '' @ side @ '' '' @ str_float E quantity @ '' '' @ symbol
       @ '' @ '' @ str_float E price @ '' (stop: '' @ str_float E stop_price @ '')''"

definition place_market_order ::
  "('c, 'f) env \<Rightarrow> bot \<Rightarrow> string \<Rightarrow> string \<Rightarrow> 'f \<Rightarrow> ('c, 'f) world
     \<Rightarrow> (exn + 'f pyval) \<times> ('c, 'f) world" where
  "place_market_order E self symbol side quantity w =
     log_and_reraise [BinanceOrderException, BinanceAPIException]
       (market_order_context E symbol side quantity)
       (let order_params = market_order_params E symbol side quantity (exchange w)
        in then_call
             (client_call E (client self) futures_create_order order_params
                (log_api_request ''futures_create_order'' order_params w))
             (\<lambda>order w1.
                (Inr order,
                 log_order_execution order (log_api_response ''futures_create_order'' order w1))))"

definition place_limit_order ::
  "('c, 'f) env \<Rightarrow> bot \<Rightarrow> string \<Rightarrow> string \<Rightarrow> 'f \<Rightarrow> 'f \<Rightarrow> ('c, 'f) world
     \<Rightarrow> (exn + 'f pyval) \<times> ('c, 'f) world" where
  "place_limit_order E self symbol side quantity price w =
     log_and_reraise [BinanceOrderException, BinanceAPIException]
       (limit_order_context E symbol side quantity price)
       (let order_params = limit_order_params E symbol side quantity price (exchange w)
        in then_call
             (client_call E (client self) futures_create_order order_params
                (log_api_request ''futures_create_order'' order_params w))
             (\<lambda>order w1.
                (Inr order,
                 log_order_execution order (log_api_response ''futures_create_order'' order w1))))"

definition place_stop_limit_order ::
  "('c, 'f) env \<Rightarrow> bot \<Rightarrow> string \<Rightarrow> string \<Rightarrow> 'f \<Rightarrow> 'f \<Rightarrow> 'f \<Rightarrow> ('c, 'f) world
     \<Rightarrow> (exn + 'f pyval) \<times> ('c, 'f) world" where
  "place_stop_limit_order E self symbol side quantity price stop_price w =
     log_and_reraise [BinanceOrderException, BinanceAPIException]
       (stop_limit_order_context E symbol side quantity price stop_price)
       (let order_params =
              stop_limit_order_params E symbol side quantity price stop_price (exchange w)
        in then_call
             (client_call E (client self) futures_create_order order_params
                (log_api_request ''futures_create_order'' order_params w))
             (\<lambda>order w1.
                (Inr order,
                 log_order_execution order (log_api_response ''futures_create_order'' order w1))))"

definition cancel_order ::
  "('c, 'f) env \<Rightarrow> bot \<Rightarrow> string \<Rightarrow> string \<Rightarrow> ('c, 'f) world
     \<Rightarrow> (exn + 'f pyval) \<times> ('c, 'f) world" where
  "cancel_order E self symbol order_id w =
     log_and_reraise [BinanceAPIException] (''Cancel Order '' @ order_id @ '' for '' @ symbol)
       (let cancel_params = [(''symbol'', PStr symbol), (''orderId'', PStr order_id)]
        in then_call
             (client_call E (client self) futures_cancel_order cancel_params
                (log_api_request ''futures_cancel_order'' cancel_params w))
             (\<lambda>result w1. (Inr result, log_api_response ''futures_cancel_order'' result w1)))"

text \<open>
  \<open>get_open_orders\<close>: \<open>if symbol:\<close> is false for \<open>None\<close> and for the empty string, and
  so is the left side of \<open>symbol or 'all symbols'\<close>.
\<close>

definition open_orders_params :: "string option \<Rightarrow> 'f params" where
  "open_orders_params symbol =
     (case symbol of
        None \<Rightarrow> []
      | Some s \<Rightarrow> if s \<noteq> [] then [(''symbol'', PStr s)] else [])"

definition symbol_or :: "string option \<Rightarrow> string \<Rightarrow> string" where
  "symbol_or symbol other =
     (case symbol of None \<Rightarrow> other | Some s \<Rightarrow> if s \<noteq> [] then s else other)"

definition get_open_orders ::
  "('c, 'f) env \<Rightarrow> bot \<Rightarrow> string option \<Rightarrow> ('c, 'f) world
     \<Rightarrow> (exn + 'f pyval) \<times> ('c, 'f) world" where
  "get_open_orders E self symbol w =
     log_and_reraise [BinanceAPIException]
       (''Get Open Orders for '' @ symbol_or symbol ''all symbols'')
       (let ps = open_orders_params symbol
        in then_call
             (client_call E (client self) futures_get_open_orders ps
                (log_api_request ''futures_get_open_orders'' ps w))
             (\<lambda>orders w1.
                then_pure (py_len orders) w1 (\<lambda>n.
                  (Inr orders,
                   log_api_response ''futures_get_open_orders'' (PDict [(''count'', PInt n)]) w1))))"

definition get_order_status ::
  "('c, 'f) env \<Rightarrow> bot \<Rightarrow> string \<Rightarrow> string \<Rightarrow> ('c, 'f) world
     \<Rightarrow> (exn + 'f pyval) \<times> ('c, 'f) world" where
  "get_order_status E self symbol order_id w =
     log_and_reraise [BinanceAPIException]
       (''Get Order Status '' @ order_id @ '' for '' @ symbol)
       (let ps = [(''symbol'', PStr symbol), (''orderId'', PStr order_id)]
        in then_call
             (client_call E (client self) futures_get_order ps
                (log_api_request ''futures_get_order'' ps w))
             (\<lambda>order w1. (Inr order, log_api_response ''futures_get_order'' order w1)))"


text \<open>
  The operations of the facade as data, and the dispatch to the method: the form in which
  a property of every operation is stated.
\<close>

datatype 'f operation =
    Get_account_balance
  | Get_symbol_info string
  | Place_market_order string string 'f
  | Place_limit_order string string 'f 'f
  | Place_stop_limit_order string string 'f 'f 'f
  | Cancel_order string string
  | Get_open_orders "string option"
  | Get_order_status string string

fun perform ::
  "('c, 'f) env \<Rightarrow> bot \<Rightarrow> 'f operation \<Rightarrow> ('c, 'f) world \<Rightarrow> (exn + 'f pyval) \<times> ('c, 'f) world" where
  "perform E self Get_account_balance w = get_account_balance E self w"
| "perform E self (Get_symbol_info symbol) w = get_symbol_info E self symbol w"
| "perform E self (Place_market_order symbol side quantity) w =
     place_market_order E self symbol side quantity w"
| "perform E self (Place_limit_order symbol side quantity price) w =
     place_limit_order E self symbol side quantity price w"
| "perform E self (Place_stop_limit_order symbol side quantity price stop_price) w =
     place_stop_limit_order E self symbol side quantity price stop_price w"
| "perform E self (Cancel_order symbol order_id) w = cancel_order E self symbol order_id w"
| "perform E self (Get_open_orders symbol) w = get_open_orders E self symbol w"
| "perform E self (Get_order_status symbol order_id) w =
     get_order_status E self symbol order_id w"

text \<open>The operation names of the request entries and of the response entries of a log.\<close>

fun request_names :: "'f log_entry list \<Rightarrow> string list" where
  "request_names [] = []"
| "request_names (API_REQUEST method ps # es) = method # request_names es"
| "request_names (e # es) = request_names es"

fun response_names :: "'f log_entry list \<Rightarrow> string list" where
  "response_names [] = []"
| "response_names (API_RESPONSE method r # es) = method # response_names es"
| "response_names (e # es) = response_names es"

fun error_entries :: "'f log_entry list \<Rightarrow> (exn \<times> string) list" where
  "error_entries [] = []"
| "error_entries (ERROR_entry e context_text # es) = (e, context_text) # error_entries es"
| "error_entries (e # es) = error_entries es"

text \<open>
  A client that writes down every call it receives before passing it on: the means to
  observe what a method hands to the client.
\<close>

definition recording ::
  "('c, 'f) env \<Rightarrow> ((api_method \<times> 'f params) list \<times> 'c, 'f) env" where
  "recording E =
     \<lparr>Client = (\<lambda>key secret use_testnet tc.
         case Client E key secret use_testnet (snd tc) of (r, c) \<Rightarrow> (r, (fst tc, c))),
      call = (\<lambda>cl m ps tc.
         case call E cl m ps (snd tc) of (r, c) \<Rightarrow> (r, (fst tc @ [(m, ps)], c))),
      time_ms = (\<lambda>tc. time_ms E (snd tc)),
      str_float = str_float E,
      FUTURE_ORDER_TYPE_MARKET = FUTURE_ORDER_TYPE_MARKET E,
      FUTURE_ORDER_TYPE_LIMIT = FUTURE_ORDER_TYPE_LIMIT E,
      FUTURE_ORDER_TYPE_STOP = FUTURE_ORDER_TYPE_STOP E,
      TIME_IN_FORCE_GTC = TIME_IN_FORCE_GTC E\<rparr>"


section \<open>The console\<close>

text \<open>
  \<open>input(prompt)\<close> writes the prompt and meets a line, a keyboard interrupt or the end of
  the input (\<open>EOFError\<close>). The messages of the program are named, not spelled.
\<close>

datatype key_event = Line string | Ctrl_C

datatype console_out = Prompt string | Invalid_input | Enter_valid string | Goodbye

datatype 'a outcome = Returned 'a | Exited int | Raised exn

text \<open>
  The \<open>input_type\<close> argument: \<open>str\<close>, or another type given by its \<open>__name__\<close> and its
  constructor applied to a string (for \<open>float\<close>: the parsed number, or \<open>ValueError\<close>).
\<close>

datatype 'f input_type = Str_type | Conv_type string "string \<Rightarrow> exn + 'f pyval"

fun type_name :: "'f input_type \<Rightarrow> string" where
  "type_name Str_type = ''str''"
| "type_name (Conv_type name conv) = name"

fun convert :: "'f input_type \<Rightarrow> string \<Rightarrow> exn + 'f pyval" where
  "convert Str_type user_input = Inr (PStr (upper (strip user_input)))"
| "convert (Conv_type name conv) user_input = conv user_input"

fun rejects :: "('f pyval \<Rightarrow> bool) option \<Rightarrow> 'f pyval \<Rightarrow> bool" where
  "rejects None v = False"
| "rejects (Some validation_func) v = (\<not> validation_func v)"

text \<open>
  \<open>float\<close> as the \<open>input_type\<close>: \<open>float(user_input)\<close> is the number that the text
  stands for, or \<open>ValueError\<close> (its message is never shown). Which texts \<open>float\<close> reads
  as a number, and as which, is for \<open>parse\<close> to say.
\<close>

definition float_type :: "(string \<Rightarrow> 'f option) \<Rightarrow> 'f input_type" where
  "float_type parse =
     Conv_type ''float''
       (\<lambda>user_input. case parse user_input of
                        None \<Rightarrow> Inl (Exn ValueError [])
                      | Some x \<Rightarrow> Inr (PFloat x))"

text \<open>
  \<open>validate_input\<close>: the \<open>while True\<close> loop consumes one console event per round, so it is
  a recursion on the events still to come. \<open>ValueError\<close> and a rejected value start the
  next round; an interrupt says goodbye and exits with code 0; any other exception leaves
  the function.
\<close>

fun validate_input ::
  "string \<Rightarrow> 'f input_type \<Rightarrow> ('f pyval \<Rightarrow> bool) option \<Rightarrow> key_event list \<Rightarrow> console_out list
     \<Rightarrow> 'f pyval outcome \<times> key_event list \<times> console_out list" where
  "validate_input prompt t validation_func [] out =
     (Raised (Exn EOFError ''EOF when reading a line''), [], out @ [Prompt prompt])"
| "validate_input prompt t validation_func (Ctrl_C # rest) out =
     (Exited 0, rest, out @ [Prompt prompt, Goodbye])"
| "validate_input prompt t validation_func (Line user_input # rest) out =
     (case convert t user_input of
        Inl e \<Rightarrow>
          if cls e = ValueError
          then validate_input prompt t validation_func rest
                 (out @ [Prompt prompt, Enter_valid (type_name t)])
          else (Raised e, rest, out @ [Prompt prompt])
      | Inr v \<Rightarrow>
          if rejects validation_func v
          then validate_input prompt t validation_func rest (out @ [Prompt prompt, Invalid_input])
          else (Returned v, rest, out @ [Prompt prompt]))"


section \<open>The command line and the start of main\<close>

text \<open>
  The parser of \<open>main\<close> declares two required options that take a value and the flag
  \<open>--testnet\<close> with \<open>action="store_true", default=True\<close>. How \<open>argparse\<close> cuts the
  command line into options is for \<open>scan\<close> to say: it ends the program with an exit code
  (a usage error, \<open>--help\<close>), or says what it met: the value of each of the two options,
  and whether the flag was there.
\<close>

record args =
  arg_api_key :: string
  arg_api_secret :: string
  arg_testnet :: bool

type_synonym scanner = "string list \<Rightarrow> int + (string option \<times> string option \<times> bool)"

text \<open>\<open>action="store_true"\<close>: the constant \<open>True\<close> when the flag is given, the default when not.\<close>

definition store_true :: "bool \<Rightarrow> bool \<Rightarrow> bool" where
  "store_true dflt given = (if given then True else dflt)"

text \<open>A required option that is missing is a usage error (exit code 2).\<close>

definition parse_args :: "scanner \<Rightarrow> string list \<Rightarrow> int + args" where
  "parse_args scan argv =
     (case scan argv of
        Inl code \<Rightarrow> Inl code
      | Inr (Some key, Some secret, given) \<Rightarrow>
          Inr \<lparr>arg_api_key = key, arg_api_secret = secret, arg_testnet = store_true True given\<rparr>
      | Inr other \<Rightarrow> Inl 2)"

text \<open>
  The first step of \<open>main\<close>: parse the command line and construct the bot from the parsed
  values. A failed construction is the fatal error of \<open>main\<close> (exit code 1).
\<close>

definition main_construct ::
  "('c, 'f) env \<Rightarrow> scanner \<Rightarrow> string list \<Rightarrow> ('c, 'f) world \<Rightarrow> (int + bot) \<times> ('c, 'f) world" where
  "main_construct E scan argv w =
     (case parse_args scan argv of
        Inl code \<Rightarrow> (Inl code, w)
      | Inr ns \<Rightarrow>
          (case BasicBot_init E (arg_api_key ns) (arg_api_secret ns) (arg_testnet ns) w of
             (Inl e, w') \<Rightarrow> (Inl 1, w')
           | (Inr b, w') \<Rightarrow> (Inr b, w')))"

text \<open>
  A client that writes down how it is constructed and through which handle it is called:
  the means to observe where the requests of the program go.
\<close>

datatype client_event = Constructed string string bool | Called client_handle api_method

definition tracing :: "('c, 'f) env \<Rightarrow> (client_event list \<times> 'c, 'f) env" where
  "tracing E =
     \<lparr>Client = (\<lambda>key secret use_testnet tc.
         case Client E key secret use_testnet (snd tc) of
           (r, c) \<Rightarrow> (r, (fst tc @ [Constructed key secret use_testnet], c))),
      call = (\<lambda>cl m ps tc.
         case call E cl m ps (snd tc) of (r, c) \<Rightarrow> (r, (fst tc @ [Called cl m], c))),
      time_ms = (\<lambda>tc. time_ms E (snd tc)),
      str_float = str_float E,
      FUTURE_ORDER_TYPE_MARKET = FUTURE_ORDER_TYPE_MARKET E,
      FUTURE_ORDER_TYPE_LIMIT = FUTURE_ORDER_TYPE_LIMIT E,
      FUTURE_ORDER_TYPE_STOP = FUTURE_ORDER_TYPE_STOP E,
      TIME_IN_FORCE_GTC = TIME_IN_FORCE_GTC E\<rparr>"

text \<open>An event of the testnet: a construction with the flag set, a call through a handle
  whose two URLs are the testnet's.\<close>

fun on_testnet :: "client_event \<Rightarrow> bool" where
  "on_testnet (Constructed key secret use_testnet) = use_testnet"
| "on_testnet (Called cl m) = (API_URL cl = testnet_url \<and> FUTURES_URL cl = testnet_url)"

text \<open>Menu option 4 of \<open>main\<close>: the symbol typed by the user, \<open>None\<close> when nothing is left of it.\<close>

definition open_orders_symbol :: "string \<Rightarrow> string option" where
  "open_orders_symbol line =
     (let symbol = upper (strip line) in if symbol \<noteq> [] then Some symbol else None)"



section \<open>Example clients\<close>

text \<open>
  A client for the examples: it answers every operation from a table, counts its calls in
  the state of the world and reads the clock from it. Floats are rationals here.
\<close>

definition new_handle :: "string \<Rightarrow> string \<Rightarrow> bool \<Rightarrow> client_handle" where
  "new_handle key secret use_testnet =
     \<lparr>api_key = key, api_secret = secret, testnet = use_testnet,
      API_URL = ''https://api.binance.com/api'', FUTURES_URL = ''https://fapi.binance.com/fapi''\<rparr>"

definition table_env :: "(api_method \<Rightarrow> exn + rat pyval) \<Rightarrow> (nat, rat) env" where
  "table_env answers =
     \<lparr>Client = (\<lambda>key secret use_testnet c. (Inr (new_handle key secret use_testnet), c)),
      call = (\<lambda>cl m ps c. (answers m, Suc c)),
      time_ms = (\<lambda>c. 1751328000000 + int c),
      str_float = (\<lambda>q. if q = 1 / 100 then ''0.01'' else ''50000.0''),
      FUTURE_ORDER_TYPE_MARKET = ''MARKET'',
      FUTURE_ORDER_TYPE_LIMIT = ''LIMIT'',
      FUTURE_ORDER_TYPE_STOP = ''STOP'',
      TIME_IN_FORCE_GTC = ''GTC''\<rparr>"

definition lot_size_filter :: "rat pyval" where
  "lot_size_filter =
     PDict [(''filterType'', PStr ''LOT_SIZE''), (''minQty'', PStr ''0.001''),
            (''stepSize'', PStr ''0.001'')]"

definition price_filter :: "rat pyval" where
  "price_filter = PDict [(''filterType'', PStr ''PRICE_FILTER''), (''tickSize'', PStr ''0.10'')]"

definition instrument :: "string \<Rightarrow> string \<Rightarrow> rat pyval list \<Rightarrow> rat pyval" where
  "instrument symbol base filters =
     PDict [(''symbol'', PStr symbol), (''status'', PStr ''TRADING''), (''baseAsset'', PStr base),
            (''quoteAsset'', PStr ''USDT''), (''filters'', PList filters)]"

definition full_account :: "rat pyval" where
  "full_account =
     PDict [(''totalWalletBalance'', PStr ''15000.00''), (''availableBalance'', PStr ''14000.00''),
            (''totalUnrealizedProfit'', PStr ''-12.50'')]"

definition new_order :: "rat pyval" where
  "new_order = PDict [(''orderId'', PInt 42), (''status'', PStr ''NEW'')]"

fun answers :: "api_method \<Rightarrow> exn + rat pyval" where
  "answers futures_ping = Inr (PDict [])"
| "answers futures_account = Inr full_account"
| "answers futures_symbol_ticker = Inr (PDict [(''symbol'', PStr ''BTCUSDT''), (''price'', PStr ''50000.00'')])"
| "answers futures_exchange_info =
     Inr (PDict [(''symbols'',
            PList [instrument ''ETHUSDT'' ''ETH'' [lot_size_filter],
                   instrument ''BTCUSDT'' ''BTC'' [price_filter, lot_size_filter]])])"
| "answers futures_create_order = Inr new_order"
| "answers futures_cancel_order = Inr (PDict [(''orderId'', PInt 42), (''status'', PStr ''CANCELED'')])"
| "answers futures_get_open_orders = Inr (PList [new_order])"
| "answers futures_get_order = Inr new_order"

definition the_bot :: bot where
  "the_bot = \<lparr>client = new_handle ''key'' ''secret'' True\<rparr>"

definition start :: "(nat, rat) world" where
  "start = \<lparr>logged = [], exchange = 0\<rparr>"



text \<open>Variants of the table: an order the exchange rejects, and credentials it refuses.\<close>

definition rejection :: exn where
  "rejection = Exn BinanceOrderException ''Order would immediately trigger.''"

definition rejecting :: "api_method \<Rightarrow> exn + rat pyval" where
  "rejecting = answers(futures_create_order := Inl rejection)"




text \<open>An account response without two of the balance fields.\<close>

definition partial_account :: "rat pyval" where
  "partial_account = PDict [(''totalWalletBalance'', PStr ''15000.00'')]"

definition partial_answers :: "api_method \<Rightarrow> exn + rat pyval" where
  "partial_answers = answers(futures_account := Inr partial_account)"


text \<open>A ticker fetch that the exchange answers with an error.\<close>

definition invalid_symbol :: exn where
  "invalid_symbol = Exn BinanceAPIException ''Invalid symbol.''"

definition no_ticker :: "api_method \<Rightarrow> exn + rat pyval" where
  "no_ticker = answers(futures_symbol_ticker := Inl invalid_symbol)"

text \<open>
  A ticker for a symbol that the instrument list of \<open>answers\<close> does not carry.
\<close>

definition delisted_answers :: "api_method \<Rightarrow> exn + rat pyval" where
  "delisted_answers =
     answers(futures_symbol_ticker :=
       Inr (PDict [(''symbol'', PStr ''ZZZUSDT''), (''price'', PStr ''0.10'')]))"

text \<open>
  A stand-in for the parsing of \<open>float\<close> that knows a few literals, and the validation
  function \<open>lambda x: x > 0\<close> of the numeric prompts of \<open>main\<close>.
\<close>

definition float_of :: "string \<Rightarrow> rat option" where
  "float_of = map_of [(''0.01'', 1 / 100), (''50000'', 50000), (''0'', 0), (''-5'', - 5)]"

definition positive :: "rat pyval \<Rightarrow> bool" where
  "positive v = (case v of PFloat q \<Rightarrow> 0 < q | _ \<Rightarrow> False)"

text \<open>
  A scanner for the examples: it reads the arguments from left to right, with the options
  spelled in full and the value of an option in the argument after it.
\<close>

fun scan_options ::
  "string list \<Rightarrow> string option \<Rightarrow> string option \<Rightarrow> bool
     \<Rightarrow> int + (string option \<times> string option \<times> bool)" where
  "scan_options [] key secret given = Inr (key, secret, given)"
| "scan_options [a] key secret given =
     (if a = ''--testnet'' then Inr (key, secret, True)
      else if a = ''-h'' \<or> a = ''--help'' then Inl 0
      else Inl 2)"
| "scan_options (a # v # rest) key secret given =
     (if a = ''--testnet'' then scan_options (v # rest) key secret True
      else if a = ''--api-key'' then scan_options rest (Some v) secret given
      else if a = ''--api-secret'' then scan_options rest key (Some v) given
      else if a = ''-h'' \<or> a = ''--help'' then Inl 0
      else Inl 2)"

definition full_spelling :: scanner where
  "full_spelling argv = scan_options argv None None False"


section \<open>Facts about the log and the world\<close>

lemma exchange_emit: "exchange (emit entry w) = exchange w"
  by (simp add: emit_def)

lemma logged_emit: "logged (emit entry w) = logged w @ [entry]"
  by (simp add: emit_def)

lemma exchange_log_and_reraise:
  "exchange (snd (log_and_reraise caught context_text r)) = exchange (snd r)"
  by (cases r) (auto simp: log_and_reraise_def log_error_def exchange_emit split: sum.splits)

lemma request_names_append:
  "request_names (es @ fs) = request_names es @ request_names fs"
  by (induction es rule: request_names.induct) simp_all

lemma response_names_append:
  "response_names (es @ fs) = response_names es @ response_names fs"
  by (induction es rule: response_names.induct) simp_all

lemma error_entries_append:
  "error_entries (es @ fs) = error_entries es @ error_entries fs"
  by (induction es rule: error_entries.induct) simp_all


lemma log_and_reraise_Inr:
  "log_and_reraise caught context_text r = (Inr v, w') \<longleftrightarrow> r = (Inr v, w')"
  by (cases r) (auto simp: log_and_reraise_def split: sum.splits)

lemma then_call_Inr:
  "then_call rw k = (Inr v, w') \<longleftrightarrow> (\<exists>a w1. rw = (Inr a, w1) \<and> k a w1 = (Inr v, w'))"
  by (cases rw) (auto simp: then_call_def split: sum.splits)

lemma then_pure_Inr:
  "then_pure r w k = (Inr v, w') \<longleftrightarrow> (\<exists>a. r = Inr a \<and> k a = (Inr v, w'))"
  by (auto simp: then_pure_def split: sum.splits)

lemma client_call_eq:
  "client_call E cl m ps w = (r, w1) \<longleftrightarrow>
     (\<exists>c. call E cl m ps (exchange w) = (r, c) \<and> w1 = w\<lparr>exchange := c\<rparr>)"
  by (auto simp: client_call_def split: prod.splits)

lemmas log_defs = log_api_request_def log_api_response_def log_error_def
  log_order_execution_def log_info_def emit_def

lemmas table_defs = table_env_def the_bot_def start_def new_handle_def

lemmas run_defs = table_defs client_call_def then_call_def then_pure_def log_and_reraise_def
  log_defs py_getitem_def py_get_def py_iter_def py_len_def Let_def


section \<open>Order placement: the parameters handed to the client\<close>

lemma market_order_recorded:
  "fst (exchange (snd (place_market_order (recording E) self symbol side quantity w)))
     = fst (exchange w)
       @ [(futures_create_order, market_order_params E symbol side quantity (snd (exchange w)))]"
  apply (simp add: place_market_order_def exchange_log_and_reraise Let_def)
  apply (simp add: then_call_def client_call_def recording_def log_api_request_def
      log_api_response_def log_order_execution_def exchange_emit market_order_params_def
      split: prod.splits sum.splits)
  done

lemma limit_order_recorded:
  "fst (exchange (snd (place_limit_order (recording E) self symbol side quantity price w)))
     = fst (exchange w)
       @ [(futures_create_order,
           limit_order_params E symbol side quantity price (snd (exchange w)))]"
  apply (simp add: place_limit_order_def exchange_log_and_reraise Let_def)
  apply (simp add: then_call_def client_call_def recording_def log_api_request_def
      log_api_response_def log_order_execution_def exchange_emit limit_order_params_def
      split: prod.splits sum.splits)
  done

lemma stop_limit_order_recorded:
  "fst (exchange (snd (place_stop_limit_order (recording E) self symbol side quantity price
                         stop_price w)))
     = fst (exchange w)
       @ [(futures_create_order,
           stop_limit_order_params E symbol side quantity price stop_price (snd (exchange w)))]"
  apply (simp add: place_stop_limit_order_def exchange_log_and_reraise Let_def)
  apply (simp add: then_call_def client_call_def recording_def log_api_request_def
      log_api_response_def log_order_execution_def exchange_emit stop_limit_order_params_def
      split: prod.splits sum.splits)
  done

text \<open>
  Claim C1. Whatever the client answers, each order method hands the client exactly one
  call, \<open>futures_create_order\<close>, and its keyword arguments are exactly the fields of the
  order kind: a market order has symbol, side, type (the market constant), quantity and
  timestamp and nothing else (no price, no stop price, no time-in-force); a limit order
  has in addition price and timeInForce (the good-till-cancelled constant); a stop-limit
  order has in addition price, stopPrice and timeInForce. The calls are read off a
  recording client wrapped around an arbitrary one.
\<close>

theorem order_params_exact_fields:
  "fst (exchange (snd (place_market_order (recording E) self symbol side quantity w)))
     = fst (exchange w)
       @ [(futures_create_order,
           [(''symbol'', PStr symbol),
            (''side'', PStr (upper side)),
            (''type'', PStr (FUTURE_ORDER_TYPE_MARKET E)),
            (''quantity'', PFloat quantity),
            (''timestamp'', PInt (time_ms E (snd (exchange w))))])]
   \<and> fst (exchange (snd (place_limit_order (recording E) self symbol side quantity price w)))
     = fst (exchange w)
       @ [(futures_create_order,
           [(''symbol'', PStr symbol),
            (''side'', PStr (upper side)),
            (''type'', PStr (FUTURE_ORDER_TYPE_LIMIT E)),
            (''quantity'', PFloat quantity),
            (''price'', PFloat price),
            (''timeInForce'', PStr (TIME_IN_FORCE_GTC E)),
            (''timestamp'', PInt (time_ms E (snd (exchange w))))])]
   \<and> fst (exchange (snd (place_stop_limit_order (recording E) self symbol side quantity price
                           stop_price w)))
     = fst (exchange w)
       @ [(futures_create_order,
           [(''symbol'', PStr symbol),
            (''side'', PStr (upper side)),
            (''type'', PStr (FUTURE_ORDER_TYPE_STOP E)),
            (''quantity'', PFloat quantity),
            (''price'', PFloat price),
            (''stopPrice'', PFloat stop_price),
            (''timeInForce'', PStr (TIME_IN_FORCE_GTC E)),
            (''timestamp'', PInt (time_ms E (snd (exchange w))))])]"
  by (simp only: market_order_recorded limit_order_recorded stop_limit_order_recorded
      market_order_params_def limit_order_params_def stop_limit_order_params_def simp_thms)


section \<open>Open orders\<close>

lemma open_orders_recorded:
  "fst (exchange (snd (get_open_orders (recording E) self symbol w)))
     = fst (exchange w) @ [(futures_get_open_orders, open_orders_params symbol)]"
  apply (simp add: get_open_orders_def exchange_log_and_reraise Let_def)
  apply (simp add: then_call_def then_pure_def client_call_def recording_def log_api_request_def
      log_api_response_def exchange_emit split: prod.splits sum.splits)
  done

text \<open>
  Claim C10. \<open>get_open_orders\<close> with the empty string as the symbol is the same
  computation as with \<open>None\<close>: the same entries are logged, the same result or
  exception comes back. Read off a recording client wrapped around an arbitrary one, either
  call hands the client exactly one call, \<open>futures_get_open_orders\<close>, with no keyword
  argument at all: the key \<open>symbol\<close> is left out, where a symbol that is not empty is sent
  under it.
\<close>

theorem get_open_orders_empty_symbol:
  "get_open_orders E self (Some []) w = get_open_orders E self None w
   \<and> fst (exchange (snd (get_open_orders (recording E) self (Some []) rw)))
       = fst (exchange rw) @ [(futures_get_open_orders, [])]
   \<and> fst (exchange (snd (get_open_orders (recording E) self None rw)))
       = fst (exchange rw) @ [(futures_get_open_orders, [])]
   \<and> (symbol \<noteq> [] \<longrightarrow>
        fst (exchange (snd (get_open_orders (recording E) self (Some symbol) rw)))
          = fst (exchange rw) @ [(futures_get_open_orders, [(''symbol'', PStr symbol)])])"
  by (simp add: open_orders_recorded open_orders_params_def)
    (simp add: get_open_orders_def open_orders_params_def symbol_or_def)

theorem get_open_orders_witness:
  "fst (exchange (snd (get_open_orders (recording (table_env answers)) the_bot (Some ''BTCUSDT'')
         \<lparr>logged = [], exchange = ([], 0)\<rparr>)))
     = [(futures_get_open_orders, [(''symbol'', PStr ''BTCUSDT'')])]
   \<and> fst (exchange (snd (get_open_orders (recording (table_env answers)) the_bot (Some [])
         \<lparr>logged = [], exchange = ([], 0)\<rparr>)))
     = [(futures_get_open_orders, [])]
   \<and> get_open_orders (table_env answers) the_bot (Some []) start
     = (Inr (PList [new_order]),
        \<lparr>logged = [API_REQUEST ''futures_get_open_orders'' (PDict []),
                   API_RESPONSE ''futures_get_open_orders'' (PDict [(''count'', PInt 1)])],
         exchange = 1\<rparr>)"
proof -
  have run: "get_open_orders (table_env answers) the_bot None start
     = (Inr (PList [new_order]),
        \<lparr>logged = [API_REQUEST ''futures_get_open_orders'' (PDict []),
                   API_RESPONSE ''futures_get_open_orders'' (PDict [(''count'', PInt 1)])],
         exchange = 1\<rparr>)"
    by (simp add: get_open_orders_def open_orders_params_def symbol_or_def run_defs)
  have named: "''BTCUSDT'' \<noteq> []"
    by simp
  from get_open_orders_empty_symbol
         [of "table_env answers" the_bot start "\<lparr>logged = [], exchange = ([], 0)\<rparr>"
             "''BTCUSDT''"]
       named run
  show ?thesis by simp
qed


section \<open>A rejected order\<close>

lemma market_order_fails:
  assumes "cls e = BinanceAPIException \<or> cls e = BinanceOrderException"
    and "call E (client self) futures_create_order
           (market_order_params E symbol side quantity (exchange w)) (exchange w) = (Inl e, c)"
  shows "place_market_order E self symbol side quantity w =
     (Inl e,
      w\<lparr>logged := logged w
           @ [API_REQUEST ''futures_create_order''
                (PDict (market_order_params E symbol side quantity (exchange w))),
              ERROR_entry e (market_order_context E symbol side quantity)],
        exchange := c\<rparr>)"
  using assms
  by (auto simp: place_market_order_def Let_def client_call_def then_call_def
      log_and_reraise_def log_defs)

lemma limit_order_fails:
  assumes "cls e = BinanceAPIException \<or> cls e = BinanceOrderException"
    and "call E (client self) futures_create_order
           (limit_order_params E symbol side quantity price (exchange w)) (exchange w) = (Inl e, c)"
  shows "place_limit_order E self symbol side quantity price w =
     (Inl e,
      w\<lparr>logged := logged w
           @ [API_REQUEST ''futures_create_order''
                (PDict (limit_order_params E symbol side quantity price (exchange w))),
              ERROR_entry e (limit_order_context E symbol side quantity price)],
        exchange := c\<rparr>)"
  using assms
  by (auto simp: place_limit_order_def Let_def client_call_def then_call_def
      log_and_reraise_def log_defs)

lemma stop_limit_order_fails:
  assumes "cls e = BinanceAPIException \<or> cls e = BinanceOrderException"
    and "call E (client self) futures_create_order
           (stop_limit_order_params E symbol side quantity price stop_price (exchange w))
           (exchange w) = (Inl e, c)"
  shows "place_stop_limit_order E self symbol side quantity price stop_price w =
     (Inl e,
      w\<lparr>logged := logged w
           @ [API_REQUEST ''futures_create_order''
                (PDict (stop_limit_order_params E symbol side quantity price stop_price
                          (exchange w))),
              ERROR_entry e (stop_limit_order_context E symbol side quantity price stop_price)],
        exchange := c\<rparr>)"
  using assms
  by (auto simp: place_stop_limit_order_def Let_def client_call_def then_call_def
      log_and_reraise_def log_defs)

text \<open>
  Claim C4. When the client answers the order call of an order method with a vendor
  exception (API or order rejection), the method returns that very exception (same class,
  same message); the log has grown by the request entry and by exactly one error entry,
  which carries the exception and the context text of the method (order kind, side,
  quantity, symbol, prices); and the world is the one the single failed call left: there
  is no second call.
\<close>

theorem failed_order_logged_once_and_reraised:
  assumes "cls e = BinanceAPIException \<or> cls e = BinanceOrderException"
  shows
    "(call E (client self) futures_create_order
        (market_order_params E symbol side quantity (exchange w)) (exchange w) = (Inl e, c)
      \<longrightarrow> place_market_order E self symbol side quantity w =
            (Inl e,
             w\<lparr>logged := logged w
                  @ [API_REQUEST ''futures_create_order''
                       (PDict (market_order_params E symbol side quantity (exchange w))),
                     ERROR_entry e
                       (''Market Order '' @ side @ '' '' @ str_float E quantity @ '' '' @ symbol)],
               exchange := c\<rparr>))
   \<and> (call E (client self) futures_create_order
        (limit_order_params E symbol side quantity price (exchange w)) (exchange w) = (Inl e, c)
      \<longrightarrow> place_limit_order E self symbol side quantity price w =
            (Inl e,
             w\<lparr>logged := logged w
                  @ [API_REQUEST ''futures_create_order''
                       (PDict (limit_order_params E symbol side quantity price (exchange w))),
                     ERROR_entry e
                       (''Limit Order '' @ side @ '' '' @ str_float E quantity @ '' '' @ symbol
                          @ '' @ '' @ str_float E price)],
               exchange := c\<rparr>))
   \<and> (call E (client self) futures_create_order
        (stop_limit_order_params E symbol side quantity price stop_price (exchange w))
        (exchange w) = (Inl e, c)
      \<longrightarrow> place_stop_limit_order E self symbol side quantity price stop_price w =
            (Inl e,
             w\<lparr>logged := logged w
                  @ [API_REQUEST ''futures_create_order''
                       (PDict (stop_limit_order_params E symbol side quantity price stop_price
                                 (exchange w))),
                     ERROR_entry e
                       (''Stop-Limit Order '' @ side @ '' '' @ str_float E quantity @ '' ''
                          @ symbol @ '' @ '' @ str_float E price @ '' (stop: ''
                          @ str_float E stop_price @ '')'')],
               exchange := c\<rparr>))"
  using market_order_fails [OF assms, of E self symbol side quantity w c]
    limit_order_fails [OF assms, of E self symbol side quantity price w c]
    stop_limit_order_fails [OF assms, of E self symbol side quantity price stop_price w c]
  by (simp add: market_order_context_def limit_order_context_def stop_limit_order_context_def)

theorem failed_order_witness:
  "place_market_order (table_env rejecting) the_bot ''BTCUSDT'' ''buy'' (1 / 100) start =
     (Inl (Exn BinanceOrderException ''Order would immediately trigger.''),
      \<lparr>logged =
         [API_REQUEST ''futures_create_order''
            (PDict [(''symbol'', PStr ''BTCUSDT''), (''side'', PStr ''BUY''),
                    (''type'', PStr ''MARKET''), (''quantity'', PFloat (1 / 100)),
                    (''timestamp'', PInt 1751328000000)]),
          ERROR_entry (Exn BinanceOrderException ''Order would immediately trigger.'')
            ''Market Order buy 0.01 BTCUSDT''],
       exchange = 1\<rparr>)
   \<and> fst (place_limit_order (table_env rejecting) the_bot ''BTCUSDT'' ''buy'' (1 / 100) 50000
            start) = Inl rejection
   \<and> fst (place_stop_limit_order (table_env rejecting) the_bot ''BTCUSDT'' ''buy'' (1 / 100)
            50000 50000 start) = Inl rejection"
proof -
  have kind: "cls rejection = BinanceAPIException \<or> cls rejection = BinanceOrderException"
    by (simp add: rejection_def)
  have "upper ''buy'' = ''BUY''"
    by (simp add: upper_def upper_char_def)
  with failed_order_logged_once_and_reraised [OF kind, of "table_env rejecting" the_bot
      "''BTCUSDT''" "''buy''" "1 / 100" start 1 50000 50000]
  show ?thesis
    by (simp add: table_defs rejecting_def rejection_def market_order_params_def
        limit_order_params_def stop_limit_order_params_def)
qed



section \<open>Request and response entries of a successful operation\<close>

lemma get_account_balance_success:
  assumes "get_account_balance E self w = (Inr r, w')"
  shows "\<exists>p. logged w' = logged w
           @ [API_REQUEST ''futures_account'' p, API_RESPONSE ''futures_account'' r]"
  using assms
  by (auto simp: get_account_balance_def log_and_reraise_Inr then_call_Inr then_pure_Inr
      client_call_eq Let_def log_defs)

lemma get_symbol_info_success:
  assumes "get_symbol_info E self symbol w = (Inr r, w')"
  shows "logged w' = logged w
           @ [API_REQUEST ''futures_symbol_ticker'' (PDict [(''symbol'', PStr symbol)]),
              API_REQUEST ''futures_exchange_info'' (PDict []),
              API_RESPONSE ''symbol_info'' r]"
  using assms
  by (auto simp: get_symbol_info_def log_and_reraise_Inr then_call_Inr then_pure_Inr
      client_call_eq Let_def log_defs split: option.splits)

lemma place_market_order_success:
  assumes "place_market_order E self symbol side quantity w = (Inr r, w')"
  shows "\<exists>p. logged w' = logged w
           @ [API_REQUEST ''futures_create_order'' p,
              API_RESPONSE ''futures_create_order'' r, ORDER_EXECUTED r]"
  using assms
  by (auto simp: place_market_order_def log_and_reraise_Inr then_call_Inr
      client_call_eq Let_def log_defs)

lemma place_limit_order_success:
  assumes "place_limit_order E self symbol side quantity price w = (Inr r, w')"
  shows "\<exists>p. logged w' = logged w
           @ [API_REQUEST ''futures_create_order'' p,
              API_RESPONSE ''futures_create_order'' r, ORDER_EXECUTED r]"
  using assms
  by (auto simp: place_limit_order_def log_and_reraise_Inr then_call_Inr
      client_call_eq Let_def log_defs)

lemma place_stop_limit_order_success:
  assumes "place_stop_limit_order E self symbol side quantity price stop_price w = (Inr r, w')"
  shows "\<exists>p. logged w' = logged w
           @ [API_REQUEST ''futures_create_order'' p,
              API_RESPONSE ''futures_create_order'' r, ORDER_EXECUTED r]"
  using assms
  by (auto simp: place_stop_limit_order_def log_and_reraise_Inr then_call_Inr
      client_call_eq Let_def log_defs)

lemma cancel_order_success:
  assumes "cancel_order E self symbol order_id w = (Inr r, w')"
  shows "\<exists>p. logged w' = logged w
           @ [API_REQUEST ''futures_cancel_order'' p, API_RESPONSE ''futures_cancel_order'' r]"
  using assms
  by (auto simp: cancel_order_def log_and_reraise_Inr then_call_Inr
      client_call_eq Let_def log_defs)

lemma get_open_orders_success:
  assumes "get_open_orders E self symbol w = (Inr r, w')"
  shows "\<exists>p q. logged w' = logged w
           @ [API_REQUEST ''futures_get_open_orders'' p,
              API_RESPONSE ''futures_get_open_orders'' q]"
  using assms
  by (auto simp: get_open_orders_def log_and_reraise_Inr then_call_Inr then_pure_Inr
      client_call_eq Let_def log_defs)

lemma get_order_status_success:
  assumes "get_order_status E self symbol order_id w = (Inr r, w')"
  shows "\<exists>p. logged w' = logged w
           @ [API_REQUEST ''futures_get_order'' p, API_RESPONSE ''futures_get_order'' r]"
  using assms
  by (auto simp: get_order_status_def log_and_reraise_Inr then_call_Inr
      client_call_eq Let_def log_defs)

text \<open>The example client, run: a symbol lookup and a limit order.\<close>


lemma symbol_info_run:
  "get_symbol_info (table_env answers) the_bot ''BTCUSDT'' start =
     (Inr (PDict [(''symbol'', PStr ''BTCUSDT''), (''price'', PStr ''50000.00''),
                  (''status'', PStr ''TRADING''), (''baseAsset'', PStr ''BTC''),
                  (''quoteAsset'', PStr ''USDT''), (''minQty'', PStr ''0.001''),
                  (''stepSize'', PStr ''0.001'')]),
      \<lparr>logged =
         [API_REQUEST ''futures_symbol_ticker'' (PDict [(''symbol'', PStr ''BTCUSDT'')]),
          API_REQUEST ''futures_exchange_info'' (PDict []),
          API_RESPONSE ''symbol_info''
            (PDict [(''symbol'', PStr ''BTCUSDT''), (''price'', PStr ''50000.00''),
                    (''status'', PStr ''TRADING''), (''baseAsset'', PStr ''BTC''),
                    (''quoteAsset'', PStr ''USDT''), (''minQty'', PStr ''0.001''),
                    (''stepSize'', PStr ''0.001'')])],
       exchange = 2\<rparr>)"
  by (simp add: get_symbol_info_def run_defs instrument_def lot_size_field_def
      lot_size_filter_def price_filter_def)

lemma limit_order_run:
  "place_limit_order (table_env answers) the_bot ''BTCUSDT'' ''BUY'' (1 / 100) 50000 start =
     (Inr new_order,
      \<lparr>logged =
         [API_REQUEST ''futures_create_order''
            (PDict [(''symbol'', PStr ''BTCUSDT''), (''side'', PStr ''BUY''),
                    (''type'', PStr ''LIMIT''), (''quantity'', PFloat (1 / 100)),
                    (''price'', PFloat 50000), (''timeInForce'', PStr ''GTC''),
                    (''timestamp'', PInt 1751328000000)]),
          API_RESPONSE ''futures_create_order'' new_order,
          ORDER_EXECUTED new_order],
       exchange = 1\<rparr>)"
  by (simp add: place_limit_order_def limit_order_params_def run_defs upper_def upper_char_def)

text \<open>
  Claim C2, as the code has it. An operation of the facade that returns has appended its
  entries to the log, and among them: for every operation but the symbol lookup, exactly
  one request entry and exactly one response entry, under the same operation name; for
  \<open>get_symbol_info\<close>, two request entries (\<open>futures_symbol_ticker\<close>, then
  \<open>futures_exchange_info\<close>, one per call of the client) and one response entry, named
  \<open>symbol_info\<close>.
\<close>

theorem request_and_response_entries:
  assumes "perform E self op w = (Inr r, w')"
  shows "\<exists>es. logged w' = logged w @ es
     \<and> (case op of
          Get_symbol_info symbol \<Rightarrow>
            request_names es = [''futures_symbol_ticker'', ''futures_exchange_info'']
            \<and> response_names es = [''symbol_info'']
        | _ \<Rightarrow> (\<exists>name. request_names es = [name] \<and> response_names es = [name]))"
proof (cases op)
  case Get_account_balance
  with assms get_account_balance_success [of E self w r w'] show ?thesis by auto
next
  case (Get_symbol_info symbol)
  with assms get_symbol_info_success [of E self symbol w r w'] show ?thesis by auto
next
  case (Place_market_order symbol side quantity)
  with assms place_market_order_success [of E self symbol side quantity w r w']
  show ?thesis by auto
next
  case (Place_limit_order symbol side quantity price)
  with assms place_limit_order_success [of E self symbol side quantity price w r w']
  show ?thesis by auto
next
  case (Place_stop_limit_order symbol side quantity price stop_price)
  with assms
    place_stop_limit_order_success [of E self symbol side quantity price stop_price w r w']
  show ?thesis by auto
next
  case (Cancel_order symbol order_id)
  with assms cancel_order_success [of E self symbol order_id w r w'] show ?thesis by auto
next
  case (Get_open_orders symbol)
  with assms get_open_orders_success [of E self symbol w r w'] show ?thesis by auto
next
  case (Get_order_status symbol order_id)
  with assms get_order_status_success [of E self symbol order_id w r w'] show ?thesis by auto
qed

theorem request_and_response_entries_witness:
  "(\<exists>es. logged (snd (place_limit_order (table_env answers) the_bot ''BTCUSDT'' ''BUY''
                        (1 / 100) 50000 start)) = logged start @ es
      \<and> (\<exists>name. request_names es = [name] \<and> response_names es = [name]))
   \<and> (\<exists>es. logged (snd (get_symbol_info (table_env answers) the_bot ''BTCUSDT'' start))
             = logged start @ es
      \<and> request_names es = [''futures_symbol_ticker'', ''futures_exchange_info'']
      \<and> response_names es = [''symbol_info''])"
proof -
  have order:
    "perform (table_env answers) the_bot (Place_limit_order ''BTCUSDT'' ''BUY'' (1 / 100) 50000)
       start
     = (Inr new_order,
        snd (place_limit_order (table_env answers) the_bot ''BTCUSDT'' ''BUY'' (1 / 100) 50000
               start))"
    by (simp add: limit_order_run)
  have lookup:
    "perform (table_env answers) the_bot (Get_symbol_info ''BTCUSDT'') start
     = (Inr (PDict [(''symbol'', PStr ''BTCUSDT''), (''price'', PStr ''50000.00''),
                    (''status'', PStr ''TRADING''), (''baseAsset'', PStr ''BTC''),
                    (''quoteAsset'', PStr ''USDT''), (''minQty'', PStr ''0.001''),
                    (''stepSize'', PStr ''0.001'')]),
        snd (get_symbol_info (table_env answers) the_bot ''BTCUSDT'' start))"
    by (simp add: symbol_info_run)
  from request_and_response_entries [OF order] request_and_response_entries [OF lookup]
  show ?thesis by simp
qed

text \<open>
  The claim as stated fails at \<open>get_symbol_info\<close>: the lookup of a known symbol succeeds
  and leaves two request entries and a response entry under a third name.
\<close>

theorem symbol_info_entries_counterexample:
  "fst (get_symbol_info (table_env answers) the_bot ''BTCUSDT'' start)
     = Inr (PDict [(''symbol'', PStr ''BTCUSDT''), (''price'', PStr ''50000.00''),
                   (''status'', PStr ''TRADING''), (''baseAsset'', PStr ''BTC''),
                   (''quoteAsset'', PStr ''USDT''), (''minQty'', PStr ''0.001''),
                   (''stepSize'', PStr ''0.001'')])
   \<and> request_names (logged (snd (get_symbol_info (table_env answers) the_bot ''BTCUSDT'' start)))
     = [''futures_symbol_ticker'', ''futures_exchange_info'']
   \<and> response_names (logged (snd (get_symbol_info (table_env answers) the_bot ''BTCUSDT''
                                     start)))
     = [''symbol_info'']"
  by (simp add: symbol_info_run)

section \<open>The account balance\<close>

lemma account_balance_returned:
  assumes "call E (client self) futures_account [] (exchange w) = (Inr (PDict account_info), c)"
  shows "get_account_balance E self w =
           (let balance_info =
                  PDict [(''totalWalletBalance'',
                            case map_of account_info ''totalWalletBalance'' of
                              None \<Rightarrow> PStr ''0'' | Some v \<Rightarrow> v),
                         (''availableBalance'',
                            case map_of account_info ''availableBalance'' of
                              None \<Rightarrow> PStr ''0'' | Some v \<Rightarrow> v),
                         (''totalUnrealizedProfit'',
                            case map_of account_info ''totalUnrealizedProfit'' of
                              None \<Rightarrow> PStr ''0'' | Some v \<Rightarrow> v)]
            in (Inr balance_info,
                w\<lparr>logged := logged w @ [API_REQUEST ''futures_account'' (PDict []),
                                         API_RESPONSE ''futures_account'' balance_info],
                  exchange := c\<rparr>))"
  using assms
  by (simp add: get_account_balance_def client_call_def then_call_def then_pure_def
      log_and_reraise_def log_defs py_get_def Let_def)

text \<open>
  Claim C5, as the code has it. When the account fetch answers with a mapping, the method
  returns a mapping of exactly the three fields \<open>totalWalletBalance\<close>,
  \<open>availableBalance\<close> and \<open>totalUnrealizedProfit\<close>, in this order; each holds the value
  of the field of that name in the response when the response has it, and the text \<open>0\<close>
  when it has not.
\<close>

theorem account_balance_fields:
  assumes "call E (client self) futures_account [] (exchange w) = (Inr (PDict account_info), c)"
  shows "fst (get_account_balance E self w) =
           Inr (PDict [(''totalWalletBalance'',
                          case map_of account_info ''totalWalletBalance'' of
                            None \<Rightarrow> PStr ''0'' | Some v \<Rightarrow> v),
                       (''availableBalance'',
                          case map_of account_info ''availableBalance'' of
                            None \<Rightarrow> PStr ''0'' | Some v \<Rightarrow> v),
                       (''totalUnrealizedProfit'',
                          case map_of account_info ''totalUnrealizedProfit'' of
                            None \<Rightarrow> PStr ''0'' | Some v \<Rightarrow> v)])"
  using account_balance_returned [OF assms] by (simp add: Let_def)

theorem account_balance_fields_witness:
  "fst (get_account_balance (table_env answers) the_bot start) =
     Inr (PDict [(''totalWalletBalance'', PStr ''15000.00''),
                 (''availableBalance'', PStr ''14000.00''),
                 (''totalUnrealizedProfit'', PStr ''-12.50'')])"
proof -
  have fetched: "call (table_env answers) (client the_bot) futures_account [] (exchange start)
                   = (Inr (PDict [(''totalWalletBalance'', PStr ''15000.00''),
                                  (''availableBalance'', PStr ''14000.00''),
                                  (''totalUnrealizedProfit'', PStr ''-12.50'')]), 1)"
    by (simp add: table_defs full_account_def)
  from account_balance_fields [OF fetched] show ?thesis by simp
qed

text \<open>
  The account response of this client has no \<open>availableBalance\<close> and no
  \<open>totalUnrealizedProfit\<close>: the values returned under these names are not taken from it.
\<close>

theorem account_balance_default_counterexample:
  "fst (get_account_balance (table_env partial_answers) the_bot start) =
     Inr (PDict [(''totalWalletBalance'', PStr ''15000.00''),
                 (''availableBalance'', PStr ''0''),
                 (''totalUnrealizedProfit'', PStr ''0'')])
   \<and> partial_answers futures_account = Inr partial_account
   \<and> py_getitem partial_account ''availableBalance'' = Inl (Exn KeyError ''availableBalance'')
   \<and> py_getitem partial_account ''totalUnrealizedProfit''
       = Inl (Exn KeyError ''totalUnrealizedProfit'')"
  by (simp add: get_account_balance_def run_defs partial_answers_def partial_account_def)


section \<open>The symbol lookup\<close>

lemma find_symbol_find:
  assumes "\<forall>s\<in>set entries. \<exists>v. py_getitem s ''symbol'' = Inr v"
  shows "find_symbol symbol entries
           = Inr (find (\<lambda>s. py_getitem s ''symbol'' = Inr (PStr symbol)) entries)"
  using assms by (induction entries) auto

lemma find_symbol_listed:
  "find_symbol symbol entries = Inr (Some s)
     \<Longrightarrow> s \<in> set entries \<and> py_getitem s ''symbol'' = Inr (PStr symbol)"
  by (induction entries) (auto split: sum.splits if_splits)




lemma symbol_info_none:
  assumes ticker: "call E (client self) futures_symbol_ticker [(''symbol'', PStr symbol)]
                     (exchange w) = (Inr ticker, c1)"
    and info: "call E (client self) futures_exchange_info [] c1 = (Inr exchange_info, c2)"
    and symbols: "py_getitem exchange_info ''symbols'' = Inr (PList entries)"
    and found: "find_symbol symbol entries = Inr None"
  shows "get_symbol_info E self symbol w =
           (Inl (not_found symbol),
            w\<lparr>logged := logged w
                 @ [API_REQUEST ''futures_symbol_ticker'' (PDict [(''symbol'', PStr symbol)]),
                    API_REQUEST ''futures_exchange_info'' (PDict [])],
              exchange := c2\<rparr>)"
  using assms
  by (simp add: get_symbol_info_def client_call_def then_call_def then_pure_def
      log_and_reraise_def log_defs py_iter_def Let_def not_found_def)




lemma symbol_info_ticker_fails:
  assumes "call E (client self) futures_symbol_ticker [(''symbol'', PStr symbol)] (exchange w)
             = (Inl e, c1)"
  shows "get_symbol_info E self symbol w =
           (Inl e,
            w\<lparr>logged := logged w
                   @ [API_REQUEST ''futures_symbol_ticker'' (PDict [(''symbol'', PStr symbol)])]
                   @ (if cls e = BinanceAPIException
                      then [ERROR_entry e (''Get Symbol Info for '' @ symbol)] else []),
              exchange := c1\<rparr>)"
  using assms
  by (simp add: get_symbol_info_def client_call_def then_call_def log_and_reraise_def log_defs)

lemma symbol_info_returns_listed:
  assumes "get_symbol_info E self symbol w = (Inr r, w')"
  shows "\<exists>c info c' symbols entries s.
           call E (client self) futures_exchange_info [] c = (Inr info, c')
         \<and> py_getitem info ''symbols'' = Inr symbols
         \<and> py_iter symbols = Inr entries
         \<and> s \<in> set entries
         \<and> py_getitem s ''symbol'' = Inr (PStr symbol)"
proof -
  from assms obtain c info c' symbols entries s
    where "call E (client self) futures_exchange_info [] c = (Inr info, c')"
      and "py_getitem info ''symbols'' = Inr symbols"
      and "py_iter symbols = Inr entries"
      and "find_symbol symbol entries = Inr (Some s)"
    by (auto simp: get_symbol_info_def log_and_reraise_Inr then_call_Inr then_pure_Inr
        client_call_eq Let_def split: option.splits)
  with find_symbol_listed [of symbol entries s] show ?thesis
    by blast
qed

text \<open>
  Claim C3, as the code has it. Let the symbol be absent from the instrument list: whenever
  the exchange answers the request for the list, no entry of the answer carries the symbol.
  Then \<open>get_symbol_info\<close> raises: it returns no result, partial or complete. What it
  raises is the not-found condition (\<open>ValueError\<close>, \<open>Symbol ... not found\<close>, after the two
  request entries and nothing else) when the ticker fetch and the fetch of the list both
  succeed and every entry of the list has a \<open>symbol\<close> field. The ticker is fetched first:
  when this fetch is refused, the method raises the exception of the fetch instead, logged
  when it is a \<open>BinanceAPIException\<close>, and the list is never looked at.
\<close>

theorem unknown_symbol_not_found:
  assumes absent:
    "\<And>c info c' symbols entries.
       call E (client self) futures_exchange_info [] c = (Inr info, c')
       \<Longrightarrow> py_getitem info ''symbols'' = Inr symbols
       \<Longrightarrow> py_iter symbols = Inr entries
       \<Longrightarrow> \<forall>s\<in>set entries. py_getitem s ''symbol'' \<noteq> Inr (PStr symbol)"
  shows "(\<exists>e. fst (get_symbol_info E self symbol w) = Inl e)
     \<and> (call E (client self) futures_symbol_ticker [(''symbol'', PStr symbol)] (exchange w)
           = (Inr ticker, c1)
        \<and> call E (client self) futures_exchange_info [] c1 = (Inr exchange_info, c2)
        \<and> py_getitem exchange_info ''symbols'' = Inr (PList listed)
        \<and> (\<forall>s\<in>set listed. \<exists>v. py_getitem s ''symbol'' = Inr v)
        \<longrightarrow> get_symbol_info E self symbol w =
              (Inl (Exn ValueError (''Symbol '' @ symbol @ '' not found'')),
               w\<lparr>logged := logged w
                    @ [API_REQUEST ''futures_symbol_ticker'' (PDict [(''symbol'', PStr symbol)]),
                       API_REQUEST ''futures_exchange_info'' (PDict [])],
                 exchange := c2\<rparr>))
     \<and> (call E (client self) futures_symbol_ticker [(''symbol'', PStr symbol)] (exchange w)
           = (Inl refusal, c1)
        \<longrightarrow> get_symbol_info E self symbol w =
              (Inl refusal,
               w\<lparr>logged := logged w
                    @ [API_REQUEST ''futures_symbol_ticker'' (PDict [(''symbol'', PStr symbol)])]
                    @ (if cls refusal = BinanceAPIException
                       then [ERROR_entry refusal (''Get Symbol Info for '' @ symbol)] else []),
                 exchange := c1\<rparr>))"
proof (intro conjI impI)
  show "\<exists>e. fst (get_symbol_info E self symbol w) = Inl e"
  proof (cases "fst (get_symbol_info E self symbol w)")
    case (Inl e)
    then show ?thesis by blast
  next
    case (Inr r)
    then have "get_symbol_info E self symbol w = (Inr r, snd (get_symbol_info E self symbol w))"
      by (metis prod.collapse)
    from symbol_info_returns_listed [OF this] absent show ?thesis
      by blast
  qed
next
  assume fetched:
    "call E (client self) futures_symbol_ticker [(''symbol'', PStr symbol)] (exchange w)
       = (Inr ticker, c1)
     \<and> call E (client self) futures_exchange_info [] c1 = (Inr exchange_info, c2)
     \<and> py_getitem exchange_info ''symbols'' = Inr (PList listed)
     \<and> (\<forall>s\<in>set listed. \<exists>v. py_getitem s ''symbol'' = Inr v)"
  then have ticker: "call E (client self) futures_symbol_ticker [(''symbol'', PStr symbol)]
                       (exchange w) = (Inr ticker, c1)"
    and info: "call E (client self) futures_exchange_info [] c1 = (Inr exchange_info, c2)"
    and symbols: "py_getitem exchange_info ''symbols'' = Inr (PList listed)"
    and readable: "\<forall>s\<in>set listed. \<exists>v. py_getitem s ''symbol'' = Inr v"
    by simp_all
  from absent [OF info symbols] have "\<forall>s\<in>set listed. py_getitem s ''symbol'' \<noteq> Inr (PStr symbol)"
    by (simp add: py_iter_def)
  then have "find (\<lambda>s. py_getitem s ''symbol'' = Inr (PStr symbol)) listed = None"
    by (simp add: find_None_iff)
  with find_symbol_find [OF readable, of symbol] have "find_symbol symbol listed = Inr None"
    by simp
  from symbol_info_none [OF ticker info symbols this]
  show "get_symbol_info E self symbol w =
              (Inl (Exn ValueError (''Symbol '' @ symbol @ '' not found'')),
               w\<lparr>logged := logged w
                    @ [API_REQUEST ''futures_symbol_ticker'' (PDict [(''symbol'', PStr symbol)]),
                       API_REQUEST ''futures_exchange_info'' (PDict [])],
                 exchange := c2\<rparr>)"
    by (simp add: not_found_def)
next
  assume "call E (client self) futures_symbol_ticker [(''symbol'', PStr symbol)] (exchange w)
            = (Inl refusal, c1)"
  from symbol_info_ticker_fails [OF this]
  show "get_symbol_info E self symbol w =
              (Inl refusal,
               w\<lparr>logged := logged w
                    @ [API_REQUEST ''futures_symbol_ticker'' (PDict [(''symbol'', PStr symbol)])]
                    @ (if cls refusal = BinanceAPIException
                       then [ERROR_entry refusal (''Get Symbol Info for '' @ symbol)] else []),
                 exchange := c1\<rparr>)" .
qed

theorem unknown_symbol_witness:
  "get_symbol_info (table_env delisted_answers) the_bot ''ZZZUSDT'' start =
     (Inl (Exn ValueError ''Symbol ZZZUSDT not found''),
      \<lparr>logged =
         [API_REQUEST ''futures_symbol_ticker'' (PDict [(''symbol'', PStr ''ZZZUSDT'')]),
          API_REQUEST ''futures_exchange_info'' (PDict [])],
       exchange = 2\<rparr>)
   \<and> get_symbol_info (table_env no_ticker) the_bot ''ZZZUSDT'' start =
     (Inl invalid_symbol,
      \<lparr>logged =
         [API_REQUEST ''futures_symbol_ticker'' (PDict [(''symbol'', PStr ''ZZZUSDT'')]),
          ERROR_entry invalid_symbol ''Get Symbol Info for ZZZUSDT''],
       exchange = 1\<rparr>)"
proof
  let ?listed = "[instrument ''ETHUSDT'' ''ETH'' [lot_size_filter],
                  instrument ''BTCUSDT'' ''BTC'' [price_filter, lot_size_filter]]"
  let ?ticker = "PDict [(''symbol'', PStr ''ZZZUSDT''), (''price'', PStr ''0.10'')]"
  have absent:
    "\<And>c info c' symbols entries.
       call (table_env delisted_answers) (client the_bot) futures_exchange_info [] c = (Inr info, c')
       \<Longrightarrow> py_getitem info ''symbols'' = Inr symbols
       \<Longrightarrow> py_iter symbols = Inr entries
       \<Longrightarrow> \<forall>s\<in>set entries. py_getitem s ''symbol'' \<noteq> Inr (PStr ''ZZZUSDT'')"
    by (auto simp: table_defs delisted_answers_def py_getitem_def py_iter_def instrument_def)
  have fetched:
    "call (table_env delisted_answers) (client the_bot) futures_symbol_ticker
       [(''symbol'', PStr ''ZZZUSDT'')] (exchange start) = (Inr ?ticker, 1)
     \<and> call (table_env delisted_answers) (client the_bot) futures_exchange_info [] 1
         = (Inr (PDict [(''symbols'', PList ?listed)]), 2)
     \<and> py_getitem (PDict [(''symbols'', PList ?listed)]) ''symbols'' = Inr (PList ?listed)
     \<and> (\<forall>s\<in>set ?listed. \<exists>v. py_getitem s ''symbol'' = Inr v)"
    by (simp add: table_defs delisted_answers_def py_getitem_def instrument_def)
  from unknown_symbol_not_found
         [where E = "table_env delisted_answers" and self = the_bot and symbol = "''ZZZUSDT''"
            and w = start and ticker = ?ticker and ?c1.0 = 1
            and exchange_info = "PDict [(''symbols'', PList ?listed)]" and ?c2.0 = 2
            and listed = ?listed, OF absent]
       fetched
  show "get_symbol_info (table_env delisted_answers) the_bot ''ZZZUSDT'' start =
     (Inl (Exn ValueError ''Symbol ZZZUSDT not found''),
      \<lparr>logged =
         [API_REQUEST ''futures_symbol_ticker'' (PDict [(''symbol'', PStr ''ZZZUSDT'')]),
          API_REQUEST ''futures_exchange_info'' (PDict [])],
       exchange = 2\<rparr>)"
    by (simp add: start_def)
next
  have absent:
    "\<And>c info c' symbols entries.
       call (table_env no_ticker) (client the_bot) futures_exchange_info [] c = (Inr info, c')
       \<Longrightarrow> py_getitem info ''symbols'' = Inr symbols
       \<Longrightarrow> py_iter symbols = Inr entries
       \<Longrightarrow> \<forall>s\<in>set entries. py_getitem s ''symbol'' \<noteq> Inr (PStr ''ZZZUSDT'')"
    by (auto simp: table_defs no_ticker_def py_getitem_def py_iter_def instrument_def)
  have refused:
    "call (table_env no_ticker) (client the_bot) futures_symbol_ticker
       [(''symbol'', PStr ''ZZZUSDT'')] (exchange start) = (Inl invalid_symbol, 1)"
    by (simp add: table_defs no_ticker_def)
  from unknown_symbol_not_found
         [where E = "table_env no_ticker" and self = the_bot and symbol = "''ZZZUSDT''"
            and w = start and ?c1.0 = 1 and refusal = invalid_symbol, OF absent]
       refused
  show "get_symbol_info (table_env no_ticker) the_bot ''ZZZUSDT'' start =
     (Inl invalid_symbol,
      \<lparr>logged =
         [API_REQUEST ''futures_symbol_ticker'' (PDict [(''symbol'', PStr ''ZZZUSDT'')]),
          ERROR_entry invalid_symbol ''Get Symbol Info for ZZZUSDT''],
       exchange = 1\<rparr>)"
    by (simp add: start_def invalid_symbol_def)
qed

text \<open>
  The exchange refuses the ticker of a symbol that its instrument list does not carry: the
  lookup fails with the refusal of the exchange, not with the not-found condition.
\<close>

theorem refused_ticker_counterexample:
  "get_symbol_info (table_env no_ticker) the_bot ''ZZZUSDT'' start =
     (Inl (Exn BinanceAPIException ''Invalid symbol.''),
      \<lparr>logged =
         [API_REQUEST ''futures_symbol_ticker'' (PDict [(''symbol'', PStr ''ZZZUSDT'')]),
          ERROR_entry (Exn BinanceAPIException ''Invalid symbol.'')
            ''Get Symbol Info for ZZZUSDT''],
       exchange = 1\<rparr>)
   \<and> no_ticker futures_exchange_info =
       Inr (PDict [(''symbols'',
              PList [instrument ''ETHUSDT'' ''ETH'' [lot_size_filter],
                     instrument ''BTCUSDT'' ''BTC'' [price_filter, lot_size_filter]])])
   \<and> py_getitem (instrument ''ETHUSDT'' ''ETH'' [lot_size_filter]) ''symbol''
       = Inr (PStr ''ETHUSDT'')
   \<and> py_getitem (instrument ''BTCUSDT'' ''BTC'' [price_filter, lot_size_filter]) ''symbol''
       = Inr (PStr ''BTCUSDT'')
   \<and> Exn BinanceAPIException ''Invalid symbol.''
       \<noteq> Exn ValueError ''Symbol ZZZUSDT not found''"
  by (simp add: get_symbol_info_def run_defs no_ticker_def invalid_symbol_def instrument_def)


section \<open>Construction of the bot\<close>










section \<open>Numeric prompts\<close>

lemma validate_input_skips:
  assumes "\<forall>t\<in>set skipped. case parse t of None \<Rightarrow> True
                                          | Some x \<Rightarrow> \<not> validation_func (PFloat x)"
  shows "validate_input prompt (float_type parse) (Some validation_func)
           (map Line skipped @ events) out
         = validate_input prompt (float_type parse) (Some validation_func) events
             (out @ concat (map (\<lambda>t. [Prompt prompt,
                                        case parse t of None \<Rightarrow> Enter_valid ''float''
                                                      | Some x \<Rightarrow> Invalid_input])
                             skipped))"
  using assms
proof (induction skipped arbitrary: out)
  case Nil
  then show ?case by simp
next
  case (Cons t skipped)
  then show ?case
    by (cases "parse t") (simp_all add: float_type_def)
qed

lemma validate_input_returns_valid:
  "validate_input prompt (float_type parse) (Some validation_func) events out
     = (Returned v, rest, out')
   \<Longrightarrow> validation_func v
       \<and> (\<exists>user_input x. Line user_input \<in> set events \<and> parse user_input = Some x
                          \<and> v = PFloat x)"
proof (induction events arbitrary: out)
  case Nil
  then show ?case by simp
next
  case (Cons event events)
  show ?case
  proof (cases event)
    case Ctrl_C
    with Cons.prems show ?thesis by simp
  next
    case (Line user_input)
    show ?thesis
    proof (cases "parse user_input")
      case None
      with Line Cons.prems have
        "validate_input prompt (float_type parse) (Some validation_func) events
           (out @ [Prompt prompt, Enter_valid ''float'']) = (Returned v, rest, out')"
        by (simp add: float_type_def)
      from Cons.IH [OF this] show ?thesis by auto
    next
      case (Some x)
      show ?thesis
      proof (cases "validation_func (PFloat x)")
        case True
        with Some Line Cons.prems show ?thesis
          by (auto simp: float_type_def)
      next
        case False
        with Some Line Cons.prems have
          "validate_input prompt (float_type parse) (Some validation_func) events
             (out @ [Prompt prompt, Invalid_input]) = (Returned v, rest, out')"
          by (simp add: float_type_def)
        from Cons.IH [OF this] show ?thesis by auto
      qed
    qed
  qed
qed

text \<open>
  Claim C8. At a numeric prompt (\<open>float\<close> as the type, with a validation function such as
  positivity), let the user type any number of lines of which each is not a number or is a
  number that the validation function rejects. Then \<open>validate_input\<close> answers a line that
  is not a number with the request for a valid float and a rejected number with the notice
  of an invalid input, writes the prompt anew for each, and goes on with the console
  events that follow, whatever they are; no exception leaves it for these lines. When the
  next line is a number that the function accepts, that number is returned. And for every
  sequence of console inputs, a value that it returns is the number that one of the typed
  lines stands for, and the validation function accepts it.
\<close>

theorem validate_input_reprompts_until_valid:
  "((\<forall>t\<in>set skipped. case parse t of None \<Rightarrow> True
                                      | Some x \<Rightarrow> \<not> validation_func (PFloat x))
    \<longrightarrow> validate_input prompt (float_type parse) (Some validation_func)
          (map Line skipped @ events) out
        = validate_input prompt (float_type parse) (Some validation_func) events
            (out @ concat (map (\<lambda>t. [Prompt prompt,
                                       case parse t of None \<Rightarrow> Enter_valid ''float''
                                                     | Some x \<Rightarrow> Invalid_input])
                            skipped)))
 \<and> ((\<forall>t\<in>set skipped. case parse t of None \<Rightarrow> True
                                      | Some x \<Rightarrow> \<not> validation_func (PFloat x))
    \<and> parse accepted = Some number \<and> validation_func (PFloat number)
    \<longrightarrow> validate_input prompt (float_type parse) (Some validation_func)
          (map Line skipped @ Line accepted # events) out
        = (Returned (PFloat number), events,
           out @ concat (map (\<lambda>t. [Prompt prompt,
                                      case parse t of None \<Rightarrow> Enter_valid ''float''
                                                    | Some x \<Rightarrow> Invalid_input])
                           skipped)
               @ [Prompt prompt]))
 \<and> (validate_input prompt (float_type parse) (Some validation_func) events out
        = (Returned v, rest, out')
    \<longrightarrow> validation_func v
        \<and> (\<exists>user_input x. Line user_input \<in> set events \<and> parse user_input = Some x
                           \<and> v = PFloat x))"
proof (intro conjI impI)
  assume "\<forall>t\<in>set skipped. case parse t of None \<Rightarrow> True
                                      | Some x \<Rightarrow> \<not> validation_func (PFloat x)"
  then show "validate_input prompt (float_type parse) (Some validation_func)
          (map Line skipped @ events) out
        = validate_input prompt (float_type parse) (Some validation_func) events
            (out @ concat (map (\<lambda>t. [Prompt prompt,
                                       case parse t of None \<Rightarrow> Enter_valid ''float''
                                                     | Some x \<Rightarrow> Invalid_input])
                            skipped))"
    by (rule validate_input_skips)
next
  assume "(\<forall>t\<in>set skipped. case parse t of None \<Rightarrow> True
                                      | Some x \<Rightarrow> \<not> validation_func (PFloat x))
    \<and> parse accepted = Some number \<and> validation_func (PFloat number)"
  then have skipped: "\<forall>t\<in>set skipped. case parse t of None \<Rightarrow> True
                                      | Some x \<Rightarrow> \<not> validation_func (PFloat x)"
    and accepted: "parse accepted = Some number" "validation_func (PFloat number)"
    by blast+
  from accepted show "validate_input prompt (float_type parse) (Some validation_func)
          (map Line skipped @ Line accepted # events) out
        = (Returned (PFloat number), events,
           out @ concat (map (\<lambda>t. [Prompt prompt,
                                      case parse t of None \<Rightarrow> Enter_valid ''float''
                                                    | Some x \<Rightarrow> Invalid_input])
                           skipped)
               @ [Prompt prompt])"
    unfolding validate_input_skips [OF skipped] by (simp add: float_type_def)
next
  assume returned: "validate_input prompt (float_type parse) (Some validation_func) events out
        = (Returned v, rest, out')"
  from validate_input_returns_valid [OF returned] show "validation_func v"
    by blast
  from validate_input_returns_valid [OF returned]
  show "\<exists>user_input x. Line user_input \<in> set events \<and> parse user_input = Some x
                           \<and> v = PFloat x"
    by blast
qed

theorem validate_input_witness:
  "validate_input ''Enter quantity: '' (float_type float_of) (Some positive)
     [Line ''abc'', Line ''-5'', Line ''0'', Line ''0.01'', Line ''50000''] []
   = (Returned (PFloat (1 / 100)), [Line ''50000''],
      [Prompt ''Enter quantity: '', Enter_valid ''float'',
       Prompt ''Enter quantity: '', Invalid_input,
       Prompt ''Enter quantity: '', Invalid_input,
       Prompt ''Enter quantity: ''])
   \<and> positive (PFloat (1 / 100))"
proof -
  have entries:
    "(\<forall>t\<in>set [''abc'', ''-5'', ''0''].
        case float_of t of None \<Rightarrow> True | Some x \<Rightarrow> \<not> positive (PFloat x))
     \<and> float_of ''0.01'' = Some (1 / 100) \<and> positive (PFloat (1 / 100))"
    by (simp add: float_of_def positive_def)
  note valid = validate_input_reprompts_until_valid
                 [where parse = float_of and validation_func = positive
                    and prompt = "''Enter quantity: ''"
                    and skipped = "[''abc'', ''-5'', ''0'']" and accepted = "''0.01''"
                    and number = "1 / 100" and events = "[Line ''50000'']" and out = "[]"]
  from valid entries
  have run: "validate_input ''Enter quantity: '' (float_type float_of) (Some positive)
     [Line ''abc'', Line ''-5'', Line ''0'', Line ''0.01'', Line ''50000''] []
   = (Returned (PFloat (1 / 100)), [Line ''50000''],
      [Prompt ''Enter quantity: '', Enter_valid ''float'',
       Prompt ''Enter quantity: '', Invalid_input,
       Prompt ''Enter quantity: '', Invalid_input,
       Prompt ''Enter quantity: ''])"
    by (simp add: float_of_def)
  from entries run show ?thesis
    by simp
qed


section \<open>The testnet flag\<close>

lemma parse_args_testnet: "parse_args scan argv = Inr ns \<Longrightarrow> arg_testnet ns"
  by (auto simp: parse_args_def store_true_def split: sum.splits prod.splits option.splits)

lemma init_testnet_urls:
  assumes "BasicBot_init E key secret True w = (Inr b, w')"
  shows "API_URL (client b) = testnet_url \<and> FUTURES_URL (client b) = testnet_url"
  using assms
  by (auto simp: BasicBot_init_def then_call_Inr Let_def split: prod.splits sum.splits)

lemma test_connection_trace:
  "fst (exchange (snd (test_connection (tracing E) self w)))
     \<in> {fst (exchange w) @ [Called (client self) futures_ping],
        fst (exchange w) @ [Called (client self) futures_ping,
                            Called (client self) futures_account]}"
  apply (simp add: test_connection_def exchange_log_and_reraise)
  apply (simp add: then_call_def then_pure_def client_call_def tracing_def log_defs
      split: prod.splits sum.splits)
  done

lemma init_trace:
  "case Client E key secret use_testnet (snd (exchange w)) of
     (Inl e, c0) \<Rightarrow>
       fst (exchange (snd (BasicBot_init (tracing E) key secret use_testnet w)))
         = fst (exchange w) @ [Constructed key secret use_testnet]
   | (Inr new_client, c0) \<Rightarrow>
       fst (exchange (snd (BasicBot_init (tracing E) key secret use_testnet w)))
         \<in> (let cl = (if use_testnet
                       then new_client\<lparr>API_URL := testnet_url, FUTURES_URL := testnet_url\<rparr>
                       else new_client)
            in {fst (exchange w) @ [Constructed key secret use_testnet, Called cl futures_ping],
                fst (exchange w) @ [Constructed key secret use_testnet, Called cl futures_ping,
                                    Called cl futures_account]})"
proof (cases "Client E key secret use_testnet (snd (exchange w))")
  case (Pair r c0)
  show ?thesis
  proof (cases r)
    case (Inl e)
    with Pair show ?thesis
      by (simp add: BasicBot_init_def tracing_def log_defs)
  next
    case (Inr new_client)
    let ?cl = "if use_testnet
               then new_client\<lparr>API_URL := testnet_url, FUTURES_URL := testnet_url\<rparr>
               else new_client"
    let ?w0 = "log_info ''Trading Bot initialized successfully''
                 (w\<lparr>exchange := (fst (exchange w) @ [Constructed key secret use_testnet], c0)\<rparr>)"
    have "fst (exchange (snd (BasicBot_init (tracing E) key secret use_testnet w)))
            = fst (exchange (snd (test_connection (tracing E) \<lparr>client = ?cl\<rparr> ?w0)))"
      using Pair Inr
      by (simp add: BasicBot_init_def tracing_def Let_def then_call_def log_error_def
          exchange_emit split: prod.splits sum.splits)
    with test_connection_trace [of E "\<lparr>client = ?cl\<rparr>" ?w0] Pair Inr show ?thesis
      by (simp add: Let_def log_defs)
  qed
qed

lemma main_trace:
  "fst (exchange (snd (main_construct (tracing E) scan argv w)))
     = (case parse_args scan argv of
          Inl code \<Rightarrow> fst (exchange w)
        | Inr ns \<Rightarrow>
            fst (exchange (snd (BasicBot_init (tracing E) (arg_api_key ns) (arg_api_secret ns)
                                  True w))))"
proof (cases "parse_args scan argv")
  case (Inl code)
  then show ?thesis by (simp add: main_construct_def)
next
  case (Inr ns)
  with parse_args_testnet have "arg_testnet ns" by blast
  with Inr show ?thesis
    by (simp add: main_construct_def split: prod.splits sum.splits)
qed

text \<open>
  Claim C9. Whatever the command line and however it is cut into options, the parsed value
  of \<open>--testnet\<close> is true. So the client is constructed with the flag set, every call that
  reaches the exchange during the construction goes through a handle whose two URLs are
  the testnet's, the ping first, and the bot that \<open>main\<close> obtains has a client with these
  URLs. The construction and the calls are read off a tracing client wrapped around an
  arbitrary one.
\<close>

theorem testnet_always_on:
  "(parse_args scan argv = Inr ns \<longrightarrow> arg_testnet ns)
 \<and> (\<forall>ev\<in>set (fst (exchange (snd (main_construct (tracing E) scan argv
                                      \<lparr>logged = entries, exchange = ([], c)\<rparr>)))).
       on_testnet ev)
 \<and> (parse_args scan argv = Inr ns
    \<longrightarrow> (\<exists>later. fst (exchange (snd (main_construct (tracing E) scan argv
                                      \<lparr>logged = entries, exchange = ([], c)\<rparr>)))
                  = Constructed (arg_api_key ns) (arg_api_secret ns) True # later))
 \<and> (parse_args scan argv = Inr ns
    \<and> Client E (arg_api_key ns) (arg_api_secret ns) True c = (Inr new_client, c0)
    \<longrightarrow> (\<exists>later. fst (exchange (snd (main_construct (tracing E) scan argv
                                      \<lparr>logged = entries, exchange = ([], c)\<rparr>)))
                  = Constructed (arg_api_key ns) (arg_api_secret ns) True
                    # Called (new_client\<lparr>API_URL := testnet_url, FUTURES_URL := testnet_url\<rparr>)
                        futures_ping
                    # later))
 \<and> (main_construct E scan argv w = (Inr b, w')
    \<longrightarrow> API_URL (client b) = testnet_url \<and> FUTURES_URL (client b) = testnet_url)"
proof (intro conjI impI)
  assume "parse_args scan argv = Inr ns"
  then show "arg_testnet ns" by (rule parse_args_testnet)
next
  let ?w = "\<lparr>logged = entries, exchange = ([] :: client_event list, c)\<rparr>"
  show "\<forall>ev\<in>set (fst (exchange (snd (main_construct (tracing E) scan argv ?w)))). on_testnet ev"
  proof (cases "parse_args scan argv")
    case (Inl code)
    then show ?thesis by (simp add: main_trace)
  next
    case (Inr parsed)
    from init_trace [of E "arg_api_key parsed" "arg_api_secret parsed" True ?w] Inr
    show ?thesis
      by (auto simp: main_trace Let_def split: prod.splits sum.splits)
  qed
next
  let ?w = "\<lparr>logged = entries, exchange = ([] :: client_event list, c)\<rparr>"
  assume parsed: "parse_args scan argv = Inr ns"
  from init_trace [of E "arg_api_key ns" "arg_api_secret ns" True ?w] parsed
  show "\<exists>later. fst (exchange (snd (main_construct (tracing E) scan argv ?w)))
                  = Constructed (arg_api_key ns) (arg_api_secret ns) True # later"
    by (auto simp: main_trace Let_def split: prod.splits sum.splits)
next
  let ?w = "\<lparr>logged = entries, exchange = ([] :: client_event list, c)\<rparr>"
  assume "parse_args scan argv = Inr ns
    \<and> Client E (arg_api_key ns) (arg_api_secret ns) True c = (Inr new_client, c0)"
  then have parsed: "parse_args scan argv = Inr ns"
    and built: "Client E (arg_api_key ns) (arg_api_secret ns) True c = (Inr new_client, c0)"
    by blast+
  from init_trace [of E "arg_api_key ns" "arg_api_secret ns" True ?w] parsed built
  show "\<exists>later. fst (exchange (snd (main_construct (tracing E) scan argv ?w)))
                  = Constructed (arg_api_key ns) (arg_api_secret ns) True
                    # Called (new_client\<lparr>API_URL := testnet_url, FUTURES_URL := testnet_url\<rparr>)
                        futures_ping
                    # later"
    by (auto simp: main_trace Let_def)
next
  assume built: "main_construct E scan argv w = (Inr b, w')"
  then obtain parsed where parsed: "parse_args scan argv = Inr parsed"
    by (cases "parse_args scan argv") (simp_all add: main_construct_def)
  with parse_args_testnet have "arg_testnet parsed" by blast
  with built parsed
  have "BasicBot_init E (arg_api_key parsed) (arg_api_secret parsed) True w = (Inr b, w')"
    by (auto simp: main_construct_def split: prod.splits sum.splits)
  from init_testnet_urls [OF this]
  show "API_URL (client b) = testnet_url" and "FUTURES_URL (client b) = testnet_url"
    by simp_all
qed

lemma main_run:
  "main_construct (table_env answers) full_spelling
     [''--api-key'', ''key'', ''--api-secret'', ''secret''] start
   = (Inr \<lparr>client = \<lparr>api_key = ''key'', api_secret = ''secret'', testnet = True,
                       API_URL = ''https://testnet.binancefuture.com'',
                       FUTURES_URL = ''https://testnet.binancefuture.com''\<rparr>\<rparr>,
      \<lparr>logged = [INFO_text ''Trading Bot initialized successfully'',
                 API_REQUEST ''ping'' (PDict []),
                 API_RESPONSE ''ping'' (PDict []),
                 API_REQUEST ''account_info'' (PDict []),
                 API_RESPONSE ''account_info''
                   (PDict [(''status'', PStr ''success''),
                           (''totalWalletBalance'', PStr ''15000.00'')]),
                 INFO_text ''API connection successful''],
       exchange = 2\<rparr>)"
  by (simp add: main_construct_def parse_args_def full_spelling_def store_true_def
      BasicBot_init_def test_connection_def run_defs full_account_def testnet_url_def)

theorem testnet_always_on_witness:
  "arg_testnet \<lparr>arg_api_key = ''key'', arg_api_secret = ''secret'', arg_testnet = True\<rparr>
   \<and> parse_args full_spelling [''--api-key'', ''key'', ''--api-secret'', ''secret'']
       = Inr \<lparr>arg_api_key = ''key'', arg_api_secret = ''secret'', arg_testnet = True\<rparr>
   \<and> parse_args full_spelling [''--testnet'', ''--api-key'', ''key'', ''--api-secret'', ''secret'']
       = Inr \<lparr>arg_api_key = ''key'', arg_api_secret = ''secret'', arg_testnet = True\<rparr>
   \<and> fst (exchange (snd (main_construct (tracing (table_env answers)) full_spelling
                           [''--api-key'', ''key'', ''--api-secret'', ''secret'']
                           \<lparr>logged = [], exchange = ([], 0)\<rparr>)))
       = [Constructed ''key'' ''secret'' True,
          Called \<lparr>api_key = ''key'', api_secret = ''secret'', testnet = True,
                   API_URL = ''https://testnet.binancefuture.com'',
                   FUTURES_URL = ''https://testnet.binancefuture.com''\<rparr> futures_ping,
          Called \<lparr>api_key = ''key'', api_secret = ''secret'', testnet = True,
                   API_URL = ''https://testnet.binancefuture.com'',
                   FUTURES_URL = ''https://testnet.binancefuture.com''\<rparr> futures_account]
   \<and> on_testnet
         (Called \<lparr>api_key = ''key'', api_secret = ''secret'', testnet = True,
                   API_URL = ''https://testnet.binancefuture.com'',
                   FUTURES_URL = ''https://testnet.binancefuture.com''\<rparr> futures_account)
   \<and> API_URL (client \<lparr>client = \<lparr>api_key = ''key'', api_secret = ''secret'', testnet = True,
                       API_URL = ''https://testnet.binancefuture.com'',
                       FUTURES_URL = ''https://testnet.binancefuture.com''\<rparr>\<rparr>) = testnet_url"
proof -
  let ?argv = "[''--api-key'', ''key'', ''--api-secret'', ''secret'']"
  let ?ns = "\<lparr>arg_api_key = ''key'', arg_api_secret = ''secret'', arg_testnet = True\<rparr>"
  let ?cl = "\<lparr>api_key = ''key'', api_secret = ''secret'', testnet = True,
              API_URL = ''https://testnet.binancefuture.com'',
              FUTURES_URL = ''https://testnet.binancefuture.com''\<rparr>"
  let ?b = "\<lparr>client = ?cl\<rparr>"
  have parsed: "parse_args full_spelling ?argv = Inr ?ns"
    by (simp add: parse_args_def full_spelling_def store_true_def)
  have flagged: "parse_args full_spelling (''--testnet'' # ?argv) = Inr ?ns"
    by (simp add: parse_args_def full_spelling_def store_true_def)
  have trace: "fst (exchange (snd (main_construct (tracing (table_env answers)) full_spelling
                                     ?argv \<lparr>logged = [], exchange = ([], 0)\<rparr>)))
                 = [Constructed ''key'' ''secret'' True, Called ?cl futures_ping,
                    Called ?cl futures_account]"
    by (simp add: main_construct_def parse_args_def full_spelling_def store_true_def
        BasicBot_init_def test_connection_def tracing_def run_defs full_account_def
        testnet_url_def)
  note on = testnet_always_on
              [where scan = full_spelling and argv = ?argv and ns = ?ns
                 and E = "table_env answers" and entries = "[]" and c = 0
                 and w = start and b = ?b]
  from on parsed have "arg_testnet ?ns"
    by blast
  moreover from on trace have "on_testnet (Called ?cl futures_account)"
    by simp
  moreover from on main_run have "API_URL (client ?b) = testnet_url"
    by blast
  ultimately show ?thesis
    using parsed flagged trace by simp
qed

end
